theory Spec2Isabelle
  imports Main "HOL-Library.Sublist"
begin

section \<open>JavaScript values\<close>

text \<open>
  The values that flow into \<^verbatim>\<open>Worker\<close> (\<^verbatim>\<open>class Worker\<close>) as settings, options and
  application data are untyped at run time: the source tests them with \<^verbatim>\<open>typeof\<close>,
  truthiness, \<^verbatim>\<open>Array.isArray\<close> and \<^verbatim>\<open>Number.isNaN\<close>. They are modelled by a datatype.

  A \<open>number\<close> is \<open>NaN\<close>, an infinity (\<open>Infinity True\<close> is the negative one), a safe
  integer (an integer of magnitude below \<open>2^53\<close>: every such integer is a double, and
  JavaScript prints it as its decimal numeral; both zeros are the integer 0), or any other
  finite double, which is given by the text JavaScript prints for it (\<^verbatim>\<open>0.5\<close>,
  \<^verbatim>\<open>18446744073709552000\<close>, \<^verbatim>\<open>1e+21\<close>): that text determines the double. Strings are lists
  of code units below 256. Symbols are not modelled; a function value carries its source
  text, which is what string conversion yields for it.
\<close>

typedef safe_int = "{i :: int. - 9007199254740992 < i \<and> i < 9007199254740992}"
  morphisms int_of_safe safe_of_int
  by (rule exI [of _ 0]) simp

datatype number = NaN | Infinity bool | Integral safe_int | OtherFinite string

datatype jsval =
    JSUndefined
  | JSNull
  | JSBoolean bool
  | JSNumber number
  | JSString string
  | JSBigInt int
  | JSFunction string
  | JSArray "jsval list"
  | JSObject "(string \<times> jsval) list"

text \<open>The number value of the safe integer \<open>i\<close>, as in the literals \<^verbatim>\<open>42\<close> and \<^verbatim>\<open>10000\<close>.\<close>

abbreviation js_int :: "int \<Rightarrow> jsval" where
  "js_int i \<equiv> JSNumber (Integral (safe_of_int i))"

fun typeof :: "jsval \<Rightarrow> string" where
  "typeof JSUndefined = ''undefined''"
| "typeof JSNull = ''object''"
| "typeof (JSBoolean b) = ''boolean''"
| "typeof (JSNumber n) = ''number''"
| "typeof (JSString s) = ''string''"
| "typeof (JSBigInt i) = ''bigint''"
| "typeof (JSFunction src) = ''function''"
| "typeof (JSArray xs) = ''object''"
| "typeof (JSObject kvs) = ''object''"

fun truthy :: "jsval \<Rightarrow> bool" where
  "truthy JSUndefined = False"
| "truthy JSNull = False"
| "truthy (JSBoolean b) = b"
| "truthy (JSNumber NaN) = False"
| "truthy (JSNumber (Infinity neg)) = True"
| "truthy (JSNumber (Integral i)) = (int_of_safe i \<noteq> 0)"
| "truthy (JSNumber (OtherFinite txt)) = True"
| "truthy (JSString s) = (s \<noteq> [])"
| "truthy (JSBigInt i) = (i \<noteq> 0)"
| "truthy (JSFunction src) = True"
| "truthy (JSArray xs) = True"
| "truthy (JSObject kvs) = True"

fun Array_isArray :: "jsval \<Rightarrow> bool" where
  "Array_isArray (JSArray xs) = True"
| "Array_isArray v = False"

text \<open>The elements a \<^verbatim>\<open>for ... of\<close> loop visits; the source only iterates arrays.\<close>

fun elements :: "jsval \<Rightarrow> jsval list" where
  "elements (JSArray xs) = xs"
| "elements v = []"

fun Number_isNaN :: "jsval \<Rightarrow> bool" where
  "Number_isNaN (JSNumber NaN) = True"
| "Number_isNaN v = False"

subsection \<open>String conversion\<close>

definition digit_char :: "nat \<Rightarrow> char" where
  "digit_char d = ''0123456789'' ! (d mod 10)"

function string_of_nat :: "nat \<Rightarrow> string" where
  "string_of_nat n =
     (if n < 10 then [digit_char n] else string_of_nat (n div 10) @ [digit_char (n mod 10)])"
  by pat_completeness auto
termination
  by (relation "measure id") auto

declare string_of_nat.simps [simp del]

definition string_of_int :: "int \<Rightarrow> string" where
  "string_of_int i = (if i < 0 then CHR ''-'' # string_of_nat (nat (- i)) else string_of_nat (nat i))"

fun number_toString :: "number \<Rightarrow> string" where
  "number_toString NaN = ''NaN''"
| "number_toString (Infinity neg) = (if neg then ''-Infinity'' else ''Infinity'')"
| "number_toString (Integral i) = string_of_int (int_of_safe i)"
| "number_toString (OtherFinite txt) = txt"

fun join_with :: "string \<Rightarrow> string list \<Rightarrow> string" where
  "join_with sep [] = []"
| "join_with sep [x] = x"
| "join_with sep (x # y # ys) = x @ sep @ join_with sep (y # ys)"

text \<open>
  \<open>template v\<close> is the text a template literal \<^verbatim>\<open>`${v}`\<close> substitutes for \<open>v\<close>
  (the language's ToString). An array prints its elements joined by commas, with
  \<^verbatim>\<open>undefined\<close> and \<^verbatim>\<open>null\<close> elements printed as nothing; a plain object prints as
  \<^verbatim>\<open>[object Object]\<close>.
\<close>

fun template :: "jsval \<Rightarrow> string" where
  "template JSUndefined = ''undefined''"
| "template JSNull = ''null''"
| "template (JSBoolean b) = (if b then ''true'' else ''false'')"
| "template (JSNumber n) = number_toString n"
| "template (JSString s) = s"
| "template (JSBigInt i) = string_of_int i"
| "template (JSFunction src) = src"
| "template (JSArray xs) =
     join_with '','' (map (\<lambda>x. if x = JSUndefined \<or> x = JSNull then [] else template x) xs)"
| "template (JSObject kvs) = ''[object Object]''"

section \<open>Worker settings and the spawn command\<close>

text \<open>
  \<^verbatim>\<open>WorkerSettings\<close>: every field is optional in the source, so an omitted field is
  \<open>JSUndefined\<close>; a caller can pass a value of any type at run time.
\<close>

record WorkerSettings =
  logLevel :: jsval
  logTags :: jsval
  rtcMinPort :: jsval
  rtcMaxPort :: jsval
  dtlsCertificateFile :: jsval
  dtlsPrivateKeyFile :: jsval
  libwebrtcFieldTrials :: jsval
  ws_appData :: jsval

text \<open>
  The part of \<^verbatim>\<open>process.env\<close> the module reads (an unset variable is \<open>None\<close>), and the two
  paths \<^verbatim>\<open>path.join(__dirname, '..', '..', 'worker', 'out', <build>, 'mediasoup-worker')\<close>,
  which depend on where the module is installed.
\<close>

record process_env =
  MEDIASOUP_WORKER_BIN :: "string option"
  MEDIASOUP_BUILDTYPE :: "string option"
  MEDIASOUP_USE_VALGRIND :: "string option"
  MEDIASOUP_VALGRIND_BIN :: "string option"
  MEDIASOUP_VALGRIND_OPTIONS :: "string option"
  debugBinPath :: string
  releaseBinPath :: string

text \<open>Truthiness of an environment variable: set and not the empty string.\<close>

fun env_truthy :: "string option \<Rightarrow> bool" where
  "env_truthy None = False"
| "env_truthy (Some s) = (s \<noteq> [])"

fun env_value :: "string option \<Rightarrow> string" where
  "env_value None = []"
| "env_value (Some s) = s"

definition workerBin :: "process_env \<Rightarrow> string" where
  "workerBin env =
     (if env_truthy (MEDIASOUP_WORKER_BIN env) then env_value (MEDIASOUP_WORKER_BIN env)
      else if MEDIASOUP_BUILDTYPE env = Some ''Debug'' then debugBinPath env
      else releaseBinPath env)"

text \<open>
  \<^verbatim>\<open>String.prototype.split(/\s+/)\<close>: the pieces between maximal runs of white space; a
  run at the start or at the end of the string leaves an empty piece there.
\<close>

definition is_space :: "char \<Rightarrow> bool" where
  "is_space c = (c \<in> set [CHR 0x09, CHR 0x0A, CHR 0x0B, CHR 0x0C, CHR 0x0D, CHR 0x20, CHR 0xA0])"

function split_spaces :: "string \<Rightarrow> string \<Rightarrow> string list" where
  "split_spaces cur [] = [cur]"
| "split_spaces cur (c # cs) =
     (if is_space c then cur # split_spaces [] (dropWhile is_space cs)
      else split_spaces (cur @ [c]) cs)"
  by pat_completeness auto
termination
  by (relation "measure (\<lambda>(cur, s). length s)") (auto simp: length_dropWhile_le less_Suc_eq_le)

text \<open>
  The constructor's computation of the command to spawn, push by push
  (\<^verbatim>\<open>Worker.constructor\<close>, from \<^verbatim>\<open>let spawnBin = workerBin\<close> to the call of \<^verbatim>\<open>spawn\<close>).
\<close>

definition push_string_setting :: "string \<Rightarrow> jsval \<Rightarrow> string list \<Rightarrow> string list" where
  "push_string_setting key v spawnArgs =
     (if typeof v = ''string'' \<and> truthy v
      then spawnArgs @ [''--'' @ key @ ''='' @ template v] else spawnArgs)"

definition push_number_setting :: "string \<Rightarrow> jsval \<Rightarrow> string list \<Rightarrow> string list" where
  "push_number_setting key v spawnArgs =
     (if typeof v = ''number'' \<and> \<not> Number_isNaN v
      then spawnArgs @ [''--'' @ key @ ''='' @ template v] else spawnArgs)"

definition push_logTags :: "jsval \<Rightarrow> string list \<Rightarrow> string list" where
  "push_logTags tags spawnArgs =
     foldl (\<lambda>args logTag. push_string_setting ''logTag'' logTag args) spawnArgs
       (if Array_isArray tags then elements tags else [])"

definition valgrind_command :: "process_env \<Rightarrow> string \<times> string list" where
  "valgrind_command env =
     (if MEDIASOUP_USE_VALGRIND env = Some ''true''
      then (if env_truthy (MEDIASOUP_VALGRIND_BIN env)
              then env_value (MEDIASOUP_VALGRIND_BIN env) else ''valgrind'',
            (if env_truthy (MEDIASOUP_VALGRIND_OPTIONS env)
               then [] @ split_spaces [] (env_value (MEDIASOUP_VALGRIND_OPTIONS env)) else [])
            @ [workerBin env])
      else (workerBin env, []))"

definition spawnCommand :: "process_env \<Rightarrow> WorkerSettings \<Rightarrow> string \<times> string list" where
  "spawnCommand env s =
     (let (spawnBin, spawnArgs) = valgrind_command env;
          spawnArgs = push_string_setting ''logLevel'' (logLevel s) spawnArgs;
          spawnArgs = push_logTags (logTags s) spawnArgs;
          spawnArgs = push_number_setting ''rtcMinPort'' (rtcMinPort s) spawnArgs;
          spawnArgs = push_number_setting ''rtcMaxPort'' (rtcMaxPort s) spawnArgs;
          spawnArgs = push_string_setting ''dtlsCertificateFile'' (dtlsCertificateFile s) spawnArgs;
          spawnArgs = push_string_setting ''dtlsPrivateKeyFile'' (dtlsPrivateKeyFile s) spawnArgs;
          spawnArgs = push_string_setting ''libwebrtcFieldTrials'' (libwebrtcFieldTrials s) spawnArgs
      in (spawnBin, spawnArgs))"

definition spawnArgs_of :: "process_env \<Rightarrow> WorkerSettings \<Rightarrow> string list" where
  "spawnArgs_of env s = snd (spawnCommand env s)"

section \<open>Errors, events and collaborators\<close>

datatype error = TypeError string | Error string | InvalidStateError string

text \<open>What the Worker emits on itself (\<^verbatim>\<open>WorkerEvents\<close>) and on its observer (\<^verbatim>\<open>WorkerObserverEvents\<close>).\<close>

datatype worker_event = Success | Failure error | Died error

text \<open>
  A \<^verbatim>\<open>Router\<close> or \<^verbatim>\<open>WebRtcServer\<close> object: \<open>res_ref\<close> is the identity of the object (a
  JavaScript \<^verbatim>\<open>Set\<close> compares its members by identity), the other fields are what the
  Worker passes to the constructor.
\<close>

record resource =
  res_ref :: nat
  res_id :: string
  res_data :: jsval
  res_appData :: jsval

datatype observer_event = ObsClose | ObsNewWebRtcServer resource | ObsNewRouter resource

text \<open>
  The classes \<^verbatim>\<open>Router\<close> and \<^verbatim>\<open>WebRtcServer\<close> are not part of the sources at hand; a call
  of their \<^verbatim>\<open>workerClosed()\<close> method is recorded, in order.
\<close>

datatype resource_call = Router_workerClosed resource | WebRtcServer_workerClosed resource

text \<open>Calls on the child process object, in order.\<close>

datatype os_action = RemoveAllListeners string | AddInertListener string | Kill string

datatype error_listener = ConstructorHandler | InertHandler

datatype notification = WORKER_RUNNING | OtherNotification nat

subsection \<open>Requests\<close>

datatype fbs_method =
    WORKER_DUMP
  | WORKER_GET_RESOURCE_USAGE
  | WORKER_UPDATE_SETTINGS
  | WORKER_CREATE_WEBRTCSERVER
  | WORKER_CREATE_ROUTER

datatype protocol = UDP | TCP

text \<open>
  \<^verbatim>\<open>socketFlagsToFbs\<close> comes from \<^verbatim>\<open>./Router\<close>; its result on a value is kept as the
  application itself.
\<close>

datatype fbs_flags = SocketFlagsToFbs jsval

record listenInfo =
  li_protocol :: jsval
  li_ip :: jsval
  li_announcedIp :: jsval
  li_port :: jsval
  li_flags :: jsval
  li_sendBufferSize :: jsval
  li_recvBufferSize :: jsval

datatype ListenInfoT = ListenInfoT protocol jsval jsval jsval fbs_flags jsval jsval

definition toListenInfoT :: "listenInfo \<Rightarrow> ListenInfoT" where
  "toListenInfoT listenInfo =
     ListenInfoT (if li_protocol listenInfo = JSString ''udp'' then UDP else TCP)
       (li_ip listenInfo) (li_announcedIp listenInfo) (li_port listenInfo)
       (SocketFlagsToFbs (li_flags listenInfo))
       (li_sendBufferSize listenInfo) (li_recvBufferSize listenInfo)"

datatype body =
    NoBody
  | UpdateSettingsRequest jsval jsval
  | CreateWebRtcServerRequest string "ListenInfoT list"
  | CreateRouterRequest string

text \<open>
  What an asynchronous method of the Worker does once its request is answered: the rest
  of the method after \<^verbatim>\<open>await this.#channel.request(...)\<close>, with the local variables it
  still uses.
\<close>

datatype waiter =
    AwaitDump
  | AwaitResourceUsage
  | AwaitUpdateSettings
  | AwaitCreateWebRtcServer string jsval
  | AwaitCreateRouter string jsval jsval

section \<open>The control channel\<close>

text \<open>
  Modelled from the spec: the class \<^verbatim>\<open>Channel\<close> (\<^verbatim>\<open>./Channel\<close>) is not part of the sources
  at hand. The spec gives it a closed flag, a monotonically assigned request identifier, a
  table of pending requests (identifier to waiter) and subject-keyed listeners; a request
  on a closed channel fails at once and nothing is written; closing the channel drains the
  table and resolves every outstanding waiter with a failure; a response resolves the
  waiter of its own identifier only. \<open>ch_sent\<close> records the requests written to the
  process, \<open>ch_failed\<close> the identifiers resolved with the closure failure, and
  \<open>ch_running_listener\<close> whether the one-time listener that the constructor registers
  under the subject \<^verbatim>\<open>String(pid)\<close> is still registered.
\<close>

record channel =
  ch_closed :: bool
  ch_nextId :: nat
  ch_pending :: "(nat \<times> waiter) list"
  ch_sent :: "(nat \<times> fbs_method \<times> body) list"
  ch_failed :: "nat list"
  ch_running_listener :: bool

text \<open>Modelled from the spec: \<^verbatim>\<open>new Channel(...)\<close>, open and with nothing pending.\<close>

definition new_Channel :: channel where
  "new_Channel =
     \<lparr>ch_closed = False, ch_nextId = 1, ch_pending = [], ch_sent = [], ch_failed = [],
      ch_running_listener = True\<rparr>"

text \<open>
  Modelled from the spec: \<^verbatim>\<open>Channel.request\<close>. On a closed channel the request fails at
  once and nothing is written; otherwise it is written under the next identifier and the
  caller waits on it.
\<close>

definition channel_request ::
  "fbs_method \<Rightarrow> body \<Rightarrow> waiter \<Rightarrow> channel \<Rightarrow> (error + nat) \<times> channel" where
  "channel_request m b k c =
     (if ch_closed c then (Inl (InvalidStateError ''Channel closed''), c)
      else (Inr (ch_nextId c),
            c\<lparr>ch_nextId := ch_nextId c + 1,
              ch_pending := ch_pending c @ [(ch_nextId c, k)],
              ch_sent := ch_sent c @ [(ch_nextId c, m, b)]\<rparr>))"

text \<open>
  Modelled from the spec: \<^verbatim>\<open>Channel.close\<close>. The pending table is drained and every
  outstanding waiter is resolved with a failure; closing again does nothing.
\<close>

definition channel_close :: "channel \<Rightarrow> channel" where
  "channel_close c =
     (if ch_closed c then c
      else c\<lparr>ch_closed := True,
             ch_failed := ch_failed c @ map fst (ch_pending c),
             ch_pending := []\<rparr>)"

text \<open>
  Modelled from the spec: the channel matches a response to the pending request of its
  identifier and removes that request from the table.
\<close>

definition channel_take :: "nat \<Rightarrow> channel \<Rightarrow> waiter option \<times> channel" where
  "channel_take rid c =
     (map_of (ch_pending c) rid,
      c\<lparr>ch_pending := filter (\<lambda>p. fst p \<noteq> rid) (ch_pending c)\<rparr>)"

section \<open>The Worker\<close>

text \<open>
  The private fields of \<^verbatim>\<open>class Worker\<close>, the constructor's local variable \<^verbatim>\<open>spawnDone\<close>
  (shared by the three handlers the constructor registers), and what the Worker has done
  to the outside: the command it spawned, the calls it made on the process object and the
  listeners that object holds, the events emitted on the Worker and on its observer, and
  the \<^verbatim>\<open>workerClosed()\<close> calls made on resources. \<open>child\<close> tells whether \<^verbatim>\<open>#child\<close> still
  refers to the process object. The registries are \<^verbatim>\<open>Set\<close>s: lists in insertion order
  without repetition. \<open>resolved\<close> holds, in the order of their resolution, the methods
  whose request the channel has resolved and whose code after the \<^verbatim>\<open>await\<close> has not run
  yet. Logging is left out.
\<close>

record worker =
  child :: bool
  pid :: jsval
  channel :: channel
  closed :: bool
  died :: bool
  appData :: jsval
  webRtcServers :: "resource list"
  routers :: "resource list"
  spawnDone :: bool
  spawned :: "string \<times> string list"
  exit_listener :: bool
  error_listeners :: "error_listener list"
  os_actions :: "os_action list"
  emitted :: "worker_event list"
  observed :: "observer_event list"
  resource_calls :: "resource_call list"
  nextRef :: nat
  resolved :: "waiter list"

definition set_add :: "'a \<Rightarrow> 'a list \<Rightarrow> 'a list" where
  "set_add x xs = (if x \<in> set xs then xs else xs @ [x])"

definition set_delete :: "'a \<Rightarrow> 'a list \<Rightarrow> 'a list" where
  "set_delete x xs = filter (\<lambda>y. y \<noteq> x) xs"

text \<open>
  \<^verbatim>\<open>new Worker(settings)\<close>. \<open>p\<close> is \<^verbatim>\<open>this.#child.pid\<close> as the operating system assigned
  it (\<open>JSUndefined\<close> when the process could not be spawned).
\<close>

definition constructor :: "process_env \<Rightarrow> WorkerSettings \<Rightarrow> jsval \<Rightarrow> worker" where
  "constructor env s p =
     \<lparr>child = True,
      pid = p,
      channel = new_Channel,
      closed = False,
      died = False,
      appData = (if truthy (ws_appData s) then ws_appData s else JSObject []),
      webRtcServers = [],
      routers = [],
      spawnDone = False,
      spawned = spawnCommand env s,
      exit_listener = True,
      error_listeners = [ConstructorHandler],
      os_actions = [],
      emitted = [],
      observed = [],
      resource_calls = [],
      nextRef = 0,
      resolved = []\<rparr>"

definition emit :: "worker_event \<Rightarrow> worker \<Rightarrow> worker" where
  "emit e w = w\<lparr>emitted := emitted w @ [e]\<rparr>"

definition observer_safeEmit :: "observer_event \<Rightarrow> worker \<Rightarrow> worker" where
  "observer_safeEmit e w = w\<lparr>observed := observed w @ [e]\<rparr>"

definition router_workerClosed :: "worker \<Rightarrow> resource \<Rightarrow> worker" where
  "router_workerClosed w router =
     w\<lparr>resource_calls := resource_calls w @ [Router_workerClosed router]\<rparr>"

definition webRtcServer_workerClosed :: "worker \<Rightarrow> resource \<Rightarrow> worker" where
  "webRtcServer_workerClosed w webRtcServer =
     w\<lparr>resource_calls := resource_calls w @ [WebRtcServer_workerClosed webRtcServer]\<rparr>"

text \<open>The two loops and clears that \<^verbatim>\<open>close()\<close> and \<^verbatim>\<open>workerDied()\<close> share word for word.\<close>

definition close_resources :: "worker \<Rightarrow> worker" where
  "close_resources w =
     (let w = foldl router_workerClosed w (routers w);
          w = w\<lparr>routers := []\<rparr>;
          w = foldl webRtcServer_workerClosed w (webRtcServers w);
          w = w\<lparr>webRtcServers := []\<rparr>
      in w)"

definition kill_child :: "worker \<Rightarrow> worker" where
  "kill_child w =
     (if child w
      then w\<lparr>exit_listener := False,
             error_listeners := [InertHandler],
             os_actions := os_actions w @
               [RemoveAllListeners ''exit'', RemoveAllListeners ''error'',
                AddInertListener ''error'', Kill ''SIGTERM''],
             child := False\<rparr>
      else w)"

definition close :: "worker \<Rightarrow> worker" where
  "close w =
     (if closed w then w
      else
        (let w = w\<lparr>closed := True\<rparr>;
             w = kill_child w;
             w = w\<lparr>channel := channel_close (channel w)\<rparr>;
             w = close_resources w
         in observer_safeEmit ObsClose w))"

definition workerDied :: "error \<Rightarrow> worker \<Rightarrow> worker" where
  "workerDied err w =
     (if closed w then w
      else
        (let w = w\<lparr>closed := True\<rparr>;
             w = w\<lparr>died := True\<rparr>;
             w = w\<lparr>channel := channel_close (channel w)\<rparr>;
             w = close_resources w;
             w = emit (Died err) w
         in observer_safeEmit ObsClose w))"

subsection \<open>The handlers the constructor registers\<close>

definition on_notification :: "notification \<Rightarrow> worker \<Rightarrow> worker" where
  "on_notification ev w =
     (if \<not> spawnDone w \<and> ev = WORKER_RUNNING
      then emit Success (w\<lparr>spawnDone := True\<rparr>)
      else w)"

definition exit_message :: "worker \<Rightarrow> jsval \<Rightarrow> jsval \<Rightarrow> string" where
  "exit_message w code signal =
     ''[pid:'' @ template (pid w) @ '', code:'' @ template code @
     '', signal:'' @ template signal @ '']''"

definition on_exit :: "jsval \<Rightarrow> jsval \<Rightarrow> worker \<Rightarrow> worker" where
  "on_exit code signal w =
     (let w = w\<lparr>child := False\<rparr> in
      if \<not> spawnDone w then
        (let w = w\<lparr>spawnDone := True\<rparr> in
         if code = js_int 42
         then emit (Failure (TypeError ''wrong settings'')) (close w)
         else emit (Failure (Error (exit_message w code signal))) (close w))
      else workerDied (Error (exit_message w code signal)) w)"

definition on_error :: "error \<Rightarrow> worker \<Rightarrow> worker" where
  "on_error err w =
     (let w = w\<lparr>child := False\<rparr> in
      if \<not> spawnDone w then
        (let w = w\<lparr>spawnDone := True\<rparr> in
         emit (Failure err) (close w))
      else workerDied err w)"

subsection \<open>Public methods\<close>

text \<open>
  An asynchronous method runs up to its \<^verbatim>\<open>await\<close> and returns either the error it threw
  before (\<open>Inl\<close>) or the identifier of the request it is now waiting on (\<open>Inr\<close>). When
  the channel resolves that request, the rest of the method (\<open>resume\<close> below) is queued;
  it runs in a later step, and it tests neither \<^verbatim>\<open>#closed\<close> nor \<^verbatim>\<open>#died\<close>.
\<close>

definition request :: "fbs_method \<Rightarrow> body \<Rightarrow> waiter \<Rightarrow> worker \<Rightarrow> (error + nat) \<times> worker" where
  "request m b k w =
     (let (r, c) = channel_request m b k (channel w) in (r, w\<lparr>channel := c\<rparr>))"

definition set_appData :: "jsval \<Rightarrow> worker \<Rightarrow> worker" where
  "set_appData v w = w\<lparr>appData := v\<rparr>"

definition dump :: "worker \<Rightarrow> (error + nat) \<times> worker" where
  "dump w = request WORKER_DUMP NoBody AwaitDump w"

definition getResourceUsage :: "worker \<Rightarrow> (error + nat) \<times> worker" where
  "getResourceUsage w = request WORKER_GET_RESOURCE_USAGE NoBody AwaitResourceUsage w"

definition updateSettings :: "jsval \<Rightarrow> jsval \<Rightarrow> worker \<Rightarrow> (error + nat) \<times> worker" where
  "updateSettings level tags w =
     request WORKER_UPDATE_SETTINGS (UpdateSettingsRequest level tags) AwaitUpdateSettings w"

text \<open>\<open>webRtcServerId\<close> is the value \<^verbatim>\<open>utils.generateUUIDv4()\<close> returns in this call.\<close>

definition createWebRtcServer ::
  "listenInfo list \<Rightarrow> jsval \<Rightarrow> string \<Rightarrow> worker \<Rightarrow> (error + nat) \<times> worker" where
  "createWebRtcServer listenInfos app webRtcServerId w =
     (if truthy app \<and> typeof app \<noteq> ''object''
      then (Inl (TypeError ''if given, appData must be an object''), w)
      else
        (let fbsListenInfos = map toListenInfoT listenInfos in
         request WORKER_CREATE_WEBRTCSERVER
           (CreateWebRtcServerRequest webRtcServerId fbsListenInfos)
           (AwaitCreateWebRtcServer webRtcServerId app) w))"

text \<open>
  \<open>generateRouterRtpCapabilities\<close> stands for the function of that name in \<^verbatim>\<open>./ortc\<close>,
  which may throw; \<^verbatim>\<open>utils.clone\<close> copies a value, so the copy is the same value here.
\<close>

definition createRouter ::
  "(jsval \<Rightarrow> error + jsval) \<Rightarrow> jsval \<Rightarrow> jsval \<Rightarrow> string \<Rightarrow> worker \<Rightarrow> (error + nat) \<times> worker" where
  "createRouter generateRouterRtpCapabilities mediaCodecs app routerId w =
     (if truthy app \<and> typeof app \<noteq> ''object''
      then (Inl (TypeError ''if given, appData must be an object''), w)
      else
        (let clonedMediaCodecs = mediaCodecs in
         case generateRouterRtpCapabilities clonedMediaCodecs of
           Inl err \<Rightarrow> (Inl err, w)
         | Inr rtpCapabilities \<Rightarrow>
             request WORKER_CREATE_ROUTER (CreateRouterRequest routerId)
               (AwaitCreateRouter routerId rtpCapabilities app) w))"

fun resume :: "waiter \<Rightarrow> worker \<Rightarrow> worker" where
  "resume AwaitDump w = w"
| "resume AwaitResourceUsage w = w"
| "resume AwaitUpdateSettings w = w"
| "resume (AwaitCreateWebRtcServer webRtcServerId app) w =
     (let webRtcServer =
            \<lparr>res_ref = nextRef w, res_id = webRtcServerId, res_data = JSUndefined,
             res_appData = app\<rparr>;
          w = w\<lparr>nextRef := nextRef w + 1\<rparr>;
          w = w\<lparr>webRtcServers := set_add webRtcServer (webRtcServers w)\<rparr>
      in observer_safeEmit (ObsNewWebRtcServer webRtcServer) w)"
| "resume (AwaitCreateRouter routerId rtpCapabilities app) w =
     (let router =
            \<lparr>res_ref = nextRef w, res_id = routerId, res_data = rtpCapabilities,
             res_appData = app\<rparr>;
          w = w\<lparr>nextRef := nextRef w + 1\<rparr>;
          w = w\<lparr>routers := set_add router (routers w)\<rparr>
      in observer_safeEmit (ObsNewRouter router) w)"

text \<open>
  The channel resolves request \<open>rid\<close> with a response of the process: the promise the
  method awaits is fulfilled and the rest of the method is queued. With an error response
  the method throws when it goes on, and changes nothing more.
\<close>

definition on_response :: "nat \<Rightarrow> worker \<Rightarrow> worker" where
  "on_response rid w =
     (case channel_take rid (channel w) of
        (None, c) \<Rightarrow> w
      | (Some k, c) \<Rightarrow> w\<lparr>channel := c, resolved := resolved w @ [k]\<rparr>)"

text \<open>
  The method that was resolved first goes on after its \<^verbatim>\<open>await\<close>. Anything can have
  happened to the Worker since the resolution, a call of \<^verbatim>\<open>close()\<close> included.
\<close>

definition on_continue :: "worker \<Rightarrow> worker" where
  "on_continue w =
     (case resolved w of
        [] \<Rightarrow> w
      | k # ks \<Rightarrow> resume k (w\<lparr>resolved := ks\<rparr>))"

definition on_error_response :: "nat \<Rightarrow> worker \<Rightarrow> worker" where
  "on_error_response rid w =
     (case channel_take rid (channel w) of
        (None, c) \<Rightarrow> w
      | (Some k, c) \<Rightarrow> w\<lparr>channel := c\<rparr>)"

text \<open>The listeners for a resource's private \<^verbatim>\<open>'@close'\<close> event.\<close>

definition on_webRtcServer_close :: "resource \<Rightarrow> worker \<Rightarrow> worker" where
  "on_webRtcServer_close webRtcServer w =
     w\<lparr>webRtcServers := set_delete webRtcServer (webRtcServers w)\<rparr>"

definition on_router_close :: "resource \<Rightarrow> worker \<Rightarrow> worker" where
  "on_router_close router w = w\<lparr>routers := set_delete router (routers w)\<rparr>"

subsection \<open>What the decoded responses turn into\<close>

text \<open>
  \<^verbatim>\<open>FbsWorker.ResourceUsageResponseT\<close>, the unpacked response of
  \<^verbatim>\<open>WORKER_GET_RESOURCE_USAGE\<close>; the type of its fields is declared outside the sources at
  hand and is left open, and \<open>Number\<close> is the conversion of such a field to a number.
\<close>

record 'b ResourceUsageResponseT =
  ruUtime :: 'b
  ruStime :: 'b
  ruMaxrss :: 'b
  ruIxrss :: 'b
  ruIdrss :: 'b
  ruIsrss :: 'b
  ruMinflt :: 'b
  ruMajflt :: 'b
  ruNswap :: 'b
  ruInblock :: 'b
  ruOublock :: 'b
  ruMsgsnd :: 'b
  ruMsgrcv :: 'b
  ruNsignals :: 'b
  ruNvcsw :: 'b
  ruNivcsw :: 'b

text \<open>The object literal \<^verbatim>\<open>getResourceUsage()\<close> returns: its properties in order.\<close>

definition getResourceUsage_result ::
  "('b \<Rightarrow> number) \<Rightarrow> 'b ResourceUsageResponseT \<Rightarrow> (string \<times> number) list" where
  "getResourceUsage_result Number ru =
     [(''ru_utime'', Number (ruUtime ru)),
      (''ru_stime'', Number (ruStime ru)),
      (''ru_maxrss'', Number (ruMaxrss ru)),
      (''ru_ixrss'', Number (ruIxrss ru)),
      (''ru_idrss'', Number (ruIdrss ru)),
      (''ru_isrss'', Number (ruIsrss ru)),
      (''ru_minflt'', Number (ruMinflt ru)),
      (''ru_majflt'', Number (ruMajflt ru)),
      (''ru_nswap'', Number (ruNswap ru)),
      (''ru_inblock'', Number (ruInblock ru)),
      (''ru_oublock'', Number (ruOublock ru)),
      (''ru_msgsnd'', Number (ruMsgsnd ru)),
      (''ru_msgrcv'', Number (ruMsgrcv ru)),
      (''ru_nsignals'', Number (ruNsignals ru)),
      (''ru_nvcsw'', Number (ruNvcsw ru)),
      (''ru_nivcsw'', Number (ruNivcsw ru))]"

text \<open>The fields the type \<^verbatim>\<open>WorkerResourceUsage\<close> declares, all of type \<^verbatim>\<open>number\<close>.\<close>

definition WorkerResourceUsage_fields :: "string list" where
  "WorkerResourceUsage_fields =
     [''ru_utime'', ''ru_stime'', ''ru_maxrss'', ''ru_ixrss'', ''ru_idrss'', ''ru_isrss'',
      ''ru_minflt'', ''ru_majflt'', ''ru_nswap'', ''ru_inblock'', ''ru_oublock'',
      ''ru_msgsnd'', ''ru_msgrcv'', ''ru_nsignals'', ''ru_nvcsw'', ''ru_nivcsw'']"

section \<open>Runs of a Worker\<close>

text \<open>
  Everything that can happen to a Worker after its construction: a notification that the
  channel delivers under the subject \<^verbatim>\<open>String(pid)\<close>, an \<^verbatim>\<open>'exit'\<close> or \<^verbatim>\<open>'error'\<close> event of the
  process object, a call of a public method, the resolution of a pending request, the
  code after an \<^verbatim>\<open>await\<close> going on, and a resource's \<^verbatim>\<open>'@close'\<close> event.
\<close>

datatype event =
    Notify notification
  | ChildExit jsval jsval
  | ChildError error
  | Call_close
  | Call_set_appData jsval
  | Call_dump
  | Call_getResourceUsage
  | Call_updateSettings jsval jsval
  | Call_createWebRtcServer "listenInfo list" jsval string
  | Call_createRouter "jsval \<Rightarrow> error + jsval" jsval jsval string
  | Response nat
  | ErrorResponse nat
  | Continue
  | WebRtcServerClosed resource
  | RouterClosed resource

text \<open>
  An event of the process object reaches the constructor's handler only while that
  handler is registered on the object; the inert handler that \<^verbatim>\<open>close()\<close> leaves does
  nothing. The listener registered with \<^verbatim>\<open>once\<close> is removed by the first delivery; it
  has no test of \<^verbatim>\<open>#closed\<close>, and a notification is handed to it whenever it arrives.
  Modelled from the spec, for the missing \<^verbatim>\<open>Channel\<close>: a response resolves only a request
  that is still pending.
\<close>

fun apply_event :: "event \<Rightarrow> worker \<Rightarrow> worker" where
  "apply_event (Notify ev) w =
     (if ch_running_listener (channel w)
      then on_notification ev (w\<lparr>channel := (channel w)\<lparr>ch_running_listener := False\<rparr>\<rparr>)
      else w)"
| "apply_event (ChildExit code signal) w =
     (if exit_listener w then on_exit code signal w else w)"
| "apply_event (ChildError err) w =
     (if ConstructorHandler \<in> set (error_listeners w) then on_error err w else w)"
| "apply_event Call_close w = close w"
| "apply_event (Call_set_appData v) w = set_appData v w"
| "apply_event Call_dump w = snd (dump w)"
| "apply_event Call_getResourceUsage w = snd (getResourceUsage w)"
| "apply_event (Call_updateSettings level tags) w = snd (updateSettings level tags w)"
| "apply_event (Call_createWebRtcServer listenInfos app uuid) w =
     snd (createWebRtcServer listenInfos app uuid w)"
| "apply_event (Call_createRouter gen mediaCodecs app uuid) w =
     snd (createRouter gen mediaCodecs app uuid w)"
| "apply_event (Response rid) w = on_response rid w"
| "apply_event (ErrorResponse rid) w = on_error_response rid w"
| "apply_event Continue w = on_continue w"
| "apply_event (WebRtcServerClosed r) w = on_webRtcServer_close r w"
| "apply_event (RouterClosed r) w = on_router_close r w"

inductive reachable :: "worker \<Rightarrow> bool" where
  constructed: "reachable (constructor env s p)"
| step: "reachable w \<Longrightarrow> reachable (apply_event e w)"

text \<open>
  What every reachable Worker satisfies: the closed flag and \<^verbatim>\<open>#child\<close> change together;
  the channel is closed exactly when the Worker is; a closed channel has no pending
  request, and a pending request has an identifier already assigned; a died Worker is closed and past its startup; a handler of the
  constructor that is still registered on the process object of a closed Worker has seen
  the startup decided; the registries hold no resource twice.
\<close>

definition worker_inv :: "worker \<Rightarrow> bool" where
  "worker_inv w =
     ((closed w = (\<not> child w)) \<and>
      (ch_closed (channel w) = closed w) \<and>
      (\<not> ch_closed (channel w) \<or> ch_pending (channel w) = []) \<and>
      (\<forall>p \<in> set (ch_pending (channel w)). fst p < ch_nextId (channel w)) \<and>
      (\<not> died w \<or> (closed w \<and> spawnDone w)) \<and>
      (\<not> (closed w \<and> (exit_listener w \<or> ConstructorHandler \<in> set (error_listeners w)))
         \<or> spawnDone w) \<and>
      distinct (routers w) \<and> distinct (webRtcServers w))"

section \<open>Properties of runs\<close>

text \<open>The Worker after a sequence of events.\<close>

definition run :: "event list \<Rightarrow> worker \<Rightarrow> worker" where
  "run evs w = foldl (\<lambda>w e. apply_event e w) w evs"

text \<open>The \<^verbatim>\<open>workerClosed()\<close> calls made between the state \<open>w\<close> and the later state \<open>w'\<close>.\<close>

definition new_calls :: "worker \<Rightarrow> worker \<Rightarrow> resource_call list" where
  "new_calls w w' = drop (length (resource_calls w)) (resource_calls w')"

text \<open>
  The cascade from \<open>w\<close> to \<open>w'\<close>: the calls made are one per router registered in \<open>w\<close>,
  then one per WebRtcServer registered in \<open>w\<close>; each registered resource is called
  exactly once; both registries of \<open>w'\<close> are empty.
\<close>

definition cascaded :: "worker \<Rightarrow> worker \<Rightarrow> bool" where
  "cascaded w w' =
     (new_calls w w' =
        map Router_workerClosed (routers w) @ map WebRtcServer_workerClosed (webRtcServers w) \<and>
      (\<forall>r \<in> set (routers w). count_list (new_calls w w') (Router_workerClosed r) = 1) \<and>
      (\<forall>r \<in> set (webRtcServers w).
         count_list (new_calls w w') (WebRtcServer_workerClosed r) = 1) \<and>
      routers w' = [] \<and> webRtcServers w' = [])"

section \<open>The argument list, setting by setting\<close>

text \<open>
  A second description of the arguments that the settings yield, by the shape of each
  value rather than by the constructor's tests; it is compared with \<open>spawnCommand\<close> below.
  A string setting yields one argument when it is a non-empty string; a number setting
  yields one when it is a number other than \<open>NaN\<close>; \<^verbatim>\<open>logTags\<close> yields one \<^verbatim>\<open>--logTag\<close>
  argument per non-empty string among the elements of an array.
\<close>

definition string_setting_arg :: "string \<Rightarrow> jsval \<Rightarrow> string list" where
  "string_setting_arg key v =
     (case v of
        JSString x \<Rightarrow> (if x = [] then [] else [''--'' @ key @ ''='' @ x])
      | _ \<Rightarrow> [])"

definition number_setting_arg :: "string \<Rightarrow> jsval \<Rightarrow> string list" where
  "number_setting_arg key v =
     (case v of
        JSNumber n \<Rightarrow> (if n = NaN then [] else [''--'' @ key @ ''='' @ number_toString n])
      | _ \<Rightarrow> [])"

definition logTags_args :: "jsval \<Rightarrow> string list" where
  "logTags_args v =
     (case v of
        JSArray tags \<Rightarrow> concat (map (string_setting_arg ''logTag'') tags)
      | _ \<Rightarrow> [])"

definition settings_args :: "WorkerSettings \<Rightarrow> string list" where
  "settings_args s =
     string_setting_arg ''logLevel'' (logLevel s) @
     logTags_args (logTags s) @
     number_setting_arg ''rtcMinPort'' (rtcMinPort s) @
     number_setting_arg ''rtcMaxPort'' (rtcMaxPort s) @
     string_setting_arg ''dtlsCertificateFile'' (dtlsCertificateFile s) @
     string_setting_arg ''dtlsPrivateKeyFile'' (dtlsPrivateKeyFile s) @
     string_setting_arg ''libwebrtcFieldTrials'' (libwebrtcFieldTrials s)"

text \<open>An argument that sets one of the two ports.\<close>

definition is_port_arg :: "string \<Rightarrow> bool" where
  "is_port_arg a = (prefix ''--rtcMinPort='' a \<or> prefix ''--rtcMaxPort='' a)"

section \<open>Example Workers\<close>

text \<open>
  An environment with no variable set, one that enables the valgrind wrapper with two
  options, settings with every field omitted, and settings with the two ports only.
\<close>

definition example_env :: process_env where
  "example_env =
     \<lparr>MEDIASOUP_WORKER_BIN = None, MEDIASOUP_BUILDTYPE = None, MEDIASOUP_USE_VALGRIND = None,
      MEDIASOUP_VALGRIND_BIN = None, MEDIASOUP_VALGRIND_OPTIONS = None,
      debugBinPath = ''/worker/out/Debug/mediasoup-worker'',
      releaseBinPath = ''/worker/out/Release/mediasoup-worker''\<rparr>"

definition no_settings :: WorkerSettings where
  "no_settings =
     \<lparr>logLevel = JSUndefined, logTags = JSUndefined, rtcMinPort = JSUndefined,
      rtcMaxPort = JSUndefined, dtlsCertificateFile = JSUndefined,
      dtlsPrivateKeyFile = JSUndefined, libwebrtcFieldTrials = JSUndefined,
      ws_appData = JSUndefined\<rparr>"

definition valgrind_env :: process_env where
  "valgrind_env =
     example_env\<lparr>MEDIASOUP_USE_VALGRIND := Some ''true'',
       MEDIASOUP_VALGRIND_OPTIONS := Some ''-q --rtcMinPort=1''\<rparr>"

definition port_settings :: WorkerSettings where
  "port_settings =
     no_settings\<lparr>rtcMinPort := js_int 10000, rtcMaxPort := js_int 10010\<rparr>"

text \<open>
  A Worker just constructed; the same after the readiness notification; after the
  process then exited with code 1; after \<open>close\<close> was called on the running Worker; and
  the fresh Worker after its process exited with code 42.
\<close>

definition example_worker :: worker where
  "example_worker = constructor example_env no_settings (js_int 4321)"

definition running_worker :: worker where
  "running_worker = apply_event (Notify WORKER_RUNNING) example_worker"

definition died_worker :: worker where
  "died_worker = apply_event (ChildExit (js_int 1) JSNull) running_worker"

definition closed_worker :: worker where
  "closed_worker = apply_event Call_close running_worker"

definition settings_rejected_worker :: worker where
  "settings_rejected_worker = apply_event (ChildExit (js_int 42) JSNull) example_worker"

text \<open>
  A running Worker on which a router and a WebRtcServer were created. And a run in which
  both responses arrive together: the router's creation goes on, \<^verbatim>\<open>close()\<close> is called
  (from a listener of the observer's \<^verbatim>\<open>'newrouter'\<close> event, say), and then the WebRtcServer's
  creation goes on, on the closed Worker.
\<close>

definition two_resources_worker :: worker where
  "two_resources_worker =
     run [Call_createRouter (\<lambda>codecs. Inr codecs) JSUndefined JSUndefined ''uuid-1'',
          Call_createWebRtcServer [] (JSObject []) ''uuid-2'',
          Response 1, Response 2, Continue, Continue] running_worker"

definition late_resource_worker :: worker where
  "late_resource_worker =
     run [Call_createRouter (\<lambda>codecs. Inr codecs) JSUndefined JSUndefined ''uuid-1'',
          Call_createWebRtcServer [] (JSObject []) ''uuid-2'',
          Response 1, Response 2, Continue, Call_close, Continue] running_worker"

definition example_router :: resource where
  "example_router =
     \<lparr>res_ref = 0, res_id = ''uuid-1'', res_data = JSUndefined, res_appData = JSUndefined\<rparr>"

definition example_webRtcServer :: resource where
  "example_webRtcServer =
     \<lparr>res_ref = 1, res_id = ''uuid-2'', res_data = JSUndefined, res_appData = JSObject []\<rparr>"

text \<open>A decoded resource usage response whose fields are safe integers already.\<close>

definition example_usage :: "safe_int ResourceUsageResponseT" where
  "example_usage =
     \<lparr>ruUtime = safe_of_int 1, ruStime = safe_of_int 2, ruMaxrss = safe_of_int 3,
      ruIxrss = safe_of_int 4, ruIdrss = safe_of_int 5, ruIsrss = safe_of_int 6,
      ruMinflt = safe_of_int 7, ruMajflt = safe_of_int 8, ruNswap = safe_of_int 9,
      ruInblock = safe_of_int 10, ruOublock = safe_of_int 11, ruMsgsnd = safe_of_int 12,
      ruMsgrcv = safe_of_int 13, ruNsignals = safe_of_int 14, ruNvcsw = safe_of_int 15,
      ruNivcsw = safe_of_int 16\<rparr>"

section \<open>Helper facts\<close>

lemma int_of_safe_of_int:
  "- 9007199254740992 < i \<Longrightarrow> i < 9007199254740992 \<Longrightarrow> int_of_safe (safe_of_int i) = i"
  by (simp add: safe_of_int_inverse)

lemma safe_of_int_eq_iff:
  "- 9007199254740992 < i \<Longrightarrow> i < 9007199254740992 \<Longrightarrow>
   - 9007199254740992 < j \<Longrightarrow> j < 9007199254740992 \<Longrightarrow>
   (safe_of_int i = safe_of_int j) = (i = j)"
  by (simp add: safe_of_int_inject)

lemma foldl_router_workerClosed:
  "foldl router_workerClosed w rs =
     w\<lparr>resource_calls := resource_calls w @ map Router_workerClosed rs\<rparr>"
  by (induction rs arbitrary: w) (simp_all add: router_workerClosed_def)

lemma foldl_webRtcServer_workerClosed:
  "foldl webRtcServer_workerClosed w rs =
     w\<lparr>resource_calls := resource_calls w @ map WebRtcServer_workerClosed rs\<rparr>"
  by (induction rs arbitrary: w) (simp_all add: webRtcServer_workerClosed_def)

lemma close_resources_eq:
  "close_resources w =
     w\<lparr>resource_calls := resource_calls w @ map Router_workerClosed (routers w)
          @ map WebRtcServer_workerClosed (webRtcServers w),
       routers := [], webRtcServers := []\<rparr>"
  by (simp add: close_resources_def Let_def foldl_router_workerClosed
      foldl_webRtcServer_workerClosed)

lemma close_open:
  "\<not> closed w \<Longrightarrow> close w =
     w\<lparr>closed := True,
       exit_listener := (if child w then False else exit_listener w),
       error_listeners := (if child w then [InertHandler] else error_listeners w),
       os_actions := os_actions w @ (if child w then
               [RemoveAllListeners ''exit'', RemoveAllListeners ''error'',
                AddInertListener ''error'', Kill ''SIGTERM''] else []),
       child := False,
       channel := channel_close (channel w),
       resource_calls := resource_calls w @ map Router_workerClosed (routers w)
          @ map WebRtcServer_workerClosed (webRtcServers w),
       routers := [], webRtcServers := [],
       observed := observed w @ [ObsClose]\<rparr>"
  by (simp add: close_def Let_def kill_child_def close_resources_eq observer_safeEmit_def)

lemma workerDied_open:
  "\<not> closed w \<Longrightarrow> workerDied err w =
     w\<lparr>closed := True, died := True,
       channel := channel_close (channel w),
       resource_calls := resource_calls w @ map Router_workerClosed (routers w)
          @ map WebRtcServer_workerClosed (webRtcServers w),
       routers := [], webRtcServers := [],
       emitted := emitted w @ [Died err],
       observed := observed w @ [ObsClose]\<rparr>"
  by (simp add: workerDied_def Let_def close_resources_eq observer_safeEmit_def emit_def)

lemma close_closed: "closed w \<Longrightarrow> close w = w"
  by (simp add: close_def)

lemma workerDied_closed: "closed w \<Longrightarrow> workerDied err w = w"
  by (simp add: workerDied_def)


section \<open>The invariant of reachable Workers\<close>

lemma inv_constructor: "worker_inv (constructor env s p)"
  by (simp add: worker_inv_def constructor_def new_Channel_def)

lemma inv_close: "worker_inv w \<Longrightarrow> worker_inv (close w)"
  by (cases "closed w") (auto simp: close_closed close_open worker_inv_def channel_close_def)

lemma inv_on_exit: "worker_inv w \<Longrightarrow> worker_inv (on_exit code signal w)"
  by (cases "closed w")
     (auto simp: on_exit_def Let_def close_closed close_open workerDied_closed workerDied_open
        emit_def worker_inv_def channel_close_def)

lemma inv_on_error: "worker_inv w \<Longrightarrow> worker_inv (on_error err w)"
  by (cases "closed w")
     (auto simp: on_error_def Let_def close_closed close_open workerDied_closed workerDied_open
        emit_def worker_inv_def channel_close_def)

lemma inv_notify:
  "worker_inv w \<Longrightarrow> worker_inv (apply_event (Notify ev) w)"
  by (auto simp: on_notification_def emit_def worker_inv_def)

lemma inv_request: "worker_inv w \<Longrightarrow> worker_inv (snd (request m b k w))"
  by (auto simp: request_def channel_request_def worker_inv_def split: prod.splits)

lemma distinct_set_add: "distinct xs \<Longrightarrow> distinct (set_add x xs)"
  by (simp add: set_add_def)

lemma distinct_set_delete: "distinct xs \<Longrightarrow> distinct (set_delete x xs)"
  by (simp add: set_delete_def)

lemma inv_on_response: "worker_inv w \<Longrightarrow> worker_inv (on_response rid w)"
  by (auto simp: on_response_def channel_take_def worker_inv_def split: option.splits)

lemma inv_resume: "worker_inv w \<Longrightarrow> worker_inv (resume k w)"
  by (cases k) (auto simp: worker_inv_def Let_def observer_safeEmit_def distinct_set_add)

lemma inv_on_continue: "worker_inv w \<Longrightarrow> worker_inv (on_continue w)"
proof (cases "resolved w")
  case Nil
  then show "worker_inv w \<Longrightarrow> worker_inv (on_continue w)"
    by (simp add: on_continue_def)
next
  case (Cons k ks)
  assume "worker_inv w"
  then have "worker_inv (w\<lparr>resolved := ks\<rparr>)" by (auto simp: worker_inv_def)
  then show "worker_inv (on_continue w)"
    by (simp add: on_continue_def Cons inv_resume)
qed

lemma inv_on_error_response: "worker_inv w \<Longrightarrow> worker_inv (on_error_response rid w)"
  by (auto simp: on_error_response_def channel_take_def worker_inv_def split: option.splits)

lemma inv_step: "worker_inv w \<Longrightarrow> worker_inv (apply_event e w)"
proof (cases e)
  case (Notify ev)
  assume "worker_inv w"
  then show ?thesis unfolding Notify by (rule inv_notify)
next
  case (Call_createWebRtcServer ls app uuid)
  assume "worker_inv w"
  then show ?thesis using inv_request
    by (simp add: Call_createWebRtcServer createWebRtcServer_def Let_def)
next
  case (Call_createRouter gen mc app uuid)
  assume "worker_inv w"
  then show ?thesis using inv_request
    by (simp add: Call_createRouter createRouter_def Let_def split: sum.splits)
next
  case (Call_set_appData v)
  assume "worker_inv w"
  then show ?thesis by (auto simp: Call_set_appData set_appData_def worker_inv_def)
next
  case (WebRtcServerClosed r)
  assume "worker_inv w"
  then show ?thesis
    by (auto simp: WebRtcServerClosed on_webRtcServer_close_def worker_inv_def set_delete_def)
next
  case (RouterClosed r)
  assume "worker_inv w"
  then show ?thesis
    by (auto simp: RouterClosed on_router_close_def worker_inv_def set_delete_def)
qed (simp_all add: inv_close inv_on_exit inv_on_error inv_request inv_on_response
      inv_on_error_response inv_on_continue dump_def getResourceUsage_def updateSettings_def)

lemma reachable_inv: "reachable w \<Longrightarrow> worker_inv w"
  by (induction rule: reachable.induct) (simp_all add: inv_constructor inv_step)

section \<open>Example Workers\<close>

lemmas example_defs = example_worker_def running_worker_def died_worker_def constructor_def
  example_env_def no_settings_def new_Channel_def

lemma reachable_example: "reachable example_worker"
  unfolding example_worker_def by (rule reachable.constructed)

lemma reachable_running: "reachable running_worker"
  unfolding running_worker_def by (rule reachable.step [OF reachable_example])

lemma reachable_died: "reachable died_worker"
  unfolding died_worker_def by (rule reachable.step [OF reachable_running])

section \<open>Flags along events\<close>

lemma child_False_same: "\<not> child w \<Longrightarrow> w\<lparr>child := False\<rparr> = w"
  by (cases w) simp

lemma closed_workerDied: "closed (workerDied err w)"
  by (cases "closed w") (simp_all add: workerDied_closed workerDied_open)

lemma closed_close: "closed (close w)"
  by (cases "closed w") (simp_all add: close_closed close_open)

lemma died_close: "died (close w) = died w"
  by (cases "closed w") (simp_all add: close_closed close_open)

lemma closed_request: "closed (snd (request m b k w)) = closed w"
  by (simp add: request_def split: prod.splits)

lemma died_request: "died (snd (request m b k w)) = died w"
  by (simp add: request_def split: prod.splits)

lemma closed_resume: "closed (resume k w) = closed w"
  by (cases k) (simp_all add: Let_def observer_safeEmit_def)

lemma died_resume: "died (resume k w) = died w"
  by (cases k) (simp_all add: Let_def observer_safeEmit_def)

lemma closed_mono: "closed w \<Longrightarrow> closed (apply_event e w)"
  by (cases e)
     (simp_all add: on_notification_def emit_def on_exit_def on_error_def Let_def
        close_closed workerDied_closed set_appData_def dump_def getResourceUsage_def
        updateSettings_def createWebRtcServer_def createRouter_def closed_request
        on_response_def on_error_response_def on_continue_def closed_resume on_webRtcServer_close_def
        on_router_close_def split: prod.splits option.splits sum.splits list.splits)

lemma died_step:
  "\<not> died w \<Longrightarrow> died (apply_event e w) \<Longrightarrow>
     \<exists>err. apply_event e w = workerDied err (w\<lparr>child := False\<rparr>)"
  by (cases e)
     (auto simp: on_notification_def emit_def on_exit_def on_error_def Let_def
        died_close set_appData_def dump_def getResourceUsage_def
        updateSettings_def createWebRtcServer_def createRouter_def died_request
        on_response_def on_error_response_def on_continue_def died_resume on_webRtcServer_close_def
        on_router_close_def split: prod.splits option.splits sum.splits list.splits if_splits)

section \<open>The died flag implies the closed flag\<close>

text \<open>
  Claim C2. In every reachable state of a Worker, \<open>died\<close> implies \<open>closed\<close>. The flag
  \<open>died\<close> is only ever set by \<open>workerDied\<close>: an event that turns \<open>died\<close> from false to
  true leaves the state that \<open>workerDied\<close> computes (after the handler has cleared
  \<^verbatim>\<open>#child\<close>), and \<open>workerDied\<close> always returns a closed Worker. No event resets \<open>closed\<close>.
\<close>

theorem died_implies_closed:
  assumes "reachable w"
  shows "(died w \<longrightarrow> closed w) \<and>
         closed (workerDied err w) \<and>
         (\<not> died w \<and> died (apply_event e w) \<longrightarrow>
            (\<exists>err'. apply_event e w = workerDied err' (w\<lparr>child := False\<rparr>)) \<and>
            closed (apply_event e w)) \<and>
         (closed w \<longrightarrow> closed (apply_event e w))"
proof -
  from assms have "worker_inv w" by (rule reachable_inv)
  then have "died w \<longrightarrow> closed w" by (auto simp: worker_inv_def)
  moreover have "\<not> died w \<and> died (apply_event e w) \<longrightarrow>
            (\<exists>err'. apply_event e w = workerDied err' (w\<lparr>child := False\<rparr>)) \<and>
            closed (apply_event e w)"
  proof (intro impI, elim conjE)
    assume a: "\<not> died w" "died (apply_event e w)"
    then obtain err' where eq: "apply_event e w = workerDied err' (w\<lparr>child := False\<rparr>)"
      using died_step by blast
    then show "(\<exists>err'. apply_event e w = workerDied err' (w\<lparr>child := False\<rparr>)) \<and>
            closed (apply_event e w)"
      by (auto simp: closed_workerDied)
  qed
  ultimately show ?thesis by (simp add: closed_workerDied closed_mono)
qed

text \<open>A Worker that died after its startup, and the running Worker it came from.\<close>

theorem died_implies_closed_witness:
  "died died_worker \<and> closed died_worker \<and>
   \<not> died running_worker \<and> \<not> closed running_worker \<and>
   closed (apply_event (Call_set_appData JSNull) died_worker)"
proof -
  have d: "died died_worker" "\<not> died running_worker" "\<not> closed running_worker"
    by (simp_all add: example_defs on_notification_def emit_def on_exit_def Let_def
        workerDied_open)
  from died_implies_closed [OF reachable_died, of "Error ''boom''" "Call_set_appData JSNull"] d
  show ?thesis by simp
qed

section \<open>Closing twice\<close>

text \<open>
  Claim C3. \<open>close\<close> is idempotent on every Worker: a second call returns the state the
  first one left, so the flags, both registries and the channel are the same, no further
  call is made on the process object (no listener removal, no kill), no further
  \<^verbatim>\<open>workerClosed()\<close> call is made and no second \<^verbatim>\<open>'close'\<close> event is emitted on the observer.
\<close>

theorem close_idempotent:
  "close (close w) = close w \<and>
   closed (close (close w)) = closed (close w) \<and>
   died (close (close w)) = died (close w) \<and>
   routers (close (close w)) = routers (close w) \<and>
   webRtcServers (close (close w)) = webRtcServers (close w) \<and>
   channel (close (close w)) = channel (close w) \<and>
   os_actions (close (close w)) = os_actions (close w) \<and>
   observed (close (close w)) = observed (close w) \<and>
   resource_calls (close (close w)) = resource_calls (close w)"
  by (simp add: close_closed closed_close)

text \<open>Closing a running Worker twice: one kill, one observer event.\<close>

theorem close_idempotent_witness:
  "close (close running_worker) = close running_worker \<and>
   os_actions (close (close running_worker)) =
     [RemoveAllListeners ''exit'', RemoveAllListeners ''error'',
      AddInertListener ''error'', Kill ''SIGTERM''] \<and>
   observed (close (close running_worker)) = [ObsClose]"
proof -
  have "os_actions (close running_worker) =
     [RemoveAllListeners ''exit'', RemoveAllListeners ''error'',
      AddInertListener ''error'', Kill ''SIGTERM'']"
    "observed (close running_worker) = [ObsClose]"
    by (simp_all add: example_defs on_notification_def emit_def close_open)
  with close_idempotent [of running_worker] show ?thesis by simp
qed

section \<open>The cascade to registered resources\<close>

lemma reachable_run: "reachable w \<Longrightarrow> reachable (run evs w)"
  unfolding run_def by (induction evs arbitrary: w) (simp_all add: reachable.step)

lemma reachable_closed_worker: "reachable closed_worker"
  unfolding closed_worker_def by (rule reachable.step [OF reachable_running])

lemma reachable_two_resources: "reachable two_resources_worker"
  unfolding two_resources_worker_def by (rule reachable_run [OF reachable_running])

lemma two_resources_eval:
  "routers two_resources_worker = [example_router]"
  "webRtcServers two_resources_worker = [example_webRtcServer]"
  "resource_calls two_resources_worker = []"
  "\<not> closed two_resources_worker"
  by (simp_all add: two_resources_worker_def run_def example_defs on_notification_def emit_def
      createRouter_def createWebRtcServer_def request_def channel_request_def Let_def
      on_response_def on_continue_def channel_take_def set_add_def observer_safeEmit_def
      example_router_def example_webRtcServer_def)

lemma closed_closed_worker: "closed closed_worker"
  by (simp add: closed_worker_def example_defs on_notification_def emit_def close_open)

lemma count_list_map_distinct:
  "inj f \<Longrightarrow> distinct xs \<Longrightarrow> x \<in> set xs \<Longrightarrow> count_list (map f xs) (f x) = 1"
  by (induction xs) (auto simp: inj_def count_list_0_iff)

lemma count_list_map_other:
  "(\<And>y. f y \<noteq> z) \<Longrightarrow> count_list (map f xs) z = 0"
  by (induction xs) auto

lemma cascadedI:
  assumes "distinct (routers w)" "distinct (webRtcServers w)"
    and "resource_calls w' = resource_calls w @
      map Router_workerClosed (routers w) @ map WebRtcServer_workerClosed (webRtcServers w)"
    and "routers w' = []" "webRtcServers w' = []"
  shows "cascaded w w'"
proof -
  have i1: "inj Router_workerClosed" and i2: "inj WebRtcServer_workerClosed"
    by (simp_all add: inj_def)
  have n: "new_calls w w' =
      map Router_workerClosed (routers w) @ map WebRtcServer_workerClosed (webRtcServers w)"
    by (simp add: new_calls_def assms(3))
  have "\<forall>r \<in> set (routers w). count_list (new_calls w w') (Router_workerClosed r) = 1"
    using assms(1) by (simp add: n count_list_map_distinct [OF i1] count_list_map_other)
  moreover have "\<forall>r \<in> set (webRtcServers w).
      count_list (new_calls w w') (WebRtcServer_workerClosed r) = 1"
    using assms(2) by (simp add: n count_list_map_distinct [OF i2] count_list_map_other)
  ultimately show ?thesis using n assms(4,5) by (simp add: cascaded_def)
qed

lemma cascaded_close: "worker_inv w \<Longrightarrow> \<not> closed w \<Longrightarrow> cascaded w (close w)"
  by (auto intro!: cascadedI simp: close_open worker_inv_def)

lemma cascaded_workerDied:
  "worker_inv w \<Longrightarrow> \<not> closed w \<Longrightarrow> cascaded w (workerDied err w)"
  by (auto intro!: cascadedI simp: workerDied_open worker_inv_def)

lemma cascaded_on_exit:
  "worker_inv w \<Longrightarrow> \<not> closed w \<Longrightarrow> cascaded w (on_exit code signal w)"
  by (auto intro!: cascadedI
        simp: on_exit_def Let_def emit_def close_open workerDied_open worker_inv_def)

lemma cascaded_on_error: "worker_inv w \<Longrightarrow> \<not> closed w \<Longrightarrow> cascaded w (on_error err w)"
  by (auto intro!: cascadedI
        simp: on_error_def Let_def emit_def close_open workerDied_open worker_inv_def)

lemma reachable_late_resource: "reachable late_resource_worker"
  unfolding late_resource_worker_def by (rule reachable_run [OF reachable_running])

lemma late_resource_eval:
  "closed late_resource_worker"
  "routers late_resource_worker = []"
  "webRtcServers late_resource_worker = [example_webRtcServer]"
  "resource_calls late_resource_worker = [Router_workerClosed example_router]"
  by (simp_all add: late_resource_worker_def run_def example_defs on_notification_def emit_def
      createRouter_def createWebRtcServer_def request_def channel_request_def Let_def
      on_response_def on_continue_def channel_take_def set_add_def observer_safeEmit_def
      close_open channel_close_def example_router_def example_webRtcServer_def)

text \<open>
  The claim C4 as it is worded fails. Two creation responses arrive together; the router's
  creation goes on; \<^verbatim>\<open>close()\<close> runs and calls the router; then the WebRtcServer's creation
  goes on and registers its object on the closed Worker. When \<^verbatim>\<open>close()\<close> runs on this
  Worker it returns at once: the registered WebRtcServer receives no \<^verbatim>\<open>workerClosed()\<close>
  call and stays in the registry.
\<close>

theorem cascade_close_and_death_counterexample:
  "reachable late_resource_worker \<and>
   closed late_resource_worker \<and>
   webRtcServers late_resource_worker = [example_webRtcServer] \<and>
   resource_calls late_resource_worker = [Router_workerClosed example_router] \<and>
   new_calls late_resource_worker (close late_resource_worker) = [] \<and>
   count_list (new_calls late_resource_worker (close late_resource_worker))
     (WebRtcServer_workerClosed example_webRtcServer) = 0 \<and>
   webRtcServers (close late_resource_worker) = [example_webRtcServer] \<and>
   \<not> cascaded late_resource_worker (close late_resource_worker) \<and>
   \<not> cascaded late_resource_worker (workerDied (Error ''gone'') late_resource_worker)"
  by (simp add: reachable_late_resource late_resource_eval close_closed workerDied_closed
      new_calls_def cascaded_def)

text \<open>
  Claim C4, amended. Whenever \<open>close\<close> or \<open>workerDied\<close> runs on a reachable Worker that is
  not closed yet (called directly or from the \<^verbatim>\<open>'exit'\<close> and \<^verbatim>\<open>'error'\<close> handlers), the
  \<^verbatim>\<open>workerClosed()\<close> calls it makes are exactly one per registered router followed by one
  per registered WebRtcServer, every registered resource is called exactly once, and both
  registries are empty afterwards. On a Worker that is closed already both return the
  state as it is.
\<close>

theorem cascade_close_and_death:
  assumes "reachable w"
  shows "(\<not> closed w \<longrightarrow>
            cascaded w (close w) \<and> cascaded w (workerDied err w) \<and>
            cascaded w (on_exit code signal w) \<and> cascaded w (on_error err w)) \<and>
         (closed w \<longrightarrow> close w = w \<and> workerDied err w = w)"
  using reachable_inv [OF assms]
  by (simp add: cascaded_close cascaded_workerDied cascaded_on_exit cascaded_on_error
      close_closed workerDied_closed)

text \<open>A running Worker with one router and one WebRtcServer, closed and killed.\<close>

theorem cascade_close_and_death_witness:
  "new_calls two_resources_worker (close two_resources_worker) =
     [Router_workerClosed example_router, WebRtcServer_workerClosed example_webRtcServer] \<and>
   count_list (new_calls two_resources_worker (close two_resources_worker))
     (Router_workerClosed example_router) = 1 \<and>
   count_list (new_calls two_resources_worker
       (on_exit (js_int 1) JSNull two_resources_worker))
     (WebRtcServer_workerClosed example_webRtcServer) = 1 \<and>
   routers (close two_resources_worker) = [] \<and>
   webRtcServers (workerDied (Error ''gone'') two_resources_worker) = [] \<and>
   close closed_worker = closed_worker"
  using cascade_close_and_death [OF reachable_two_resources, of "Error ''gone''"
      "js_int 1" JSNull]
    cascade_close_and_death [OF reachable_closed_worker, of "Error ''gone''" "js_int 1" JSNull]
    closed_closed_worker
  by (simp add: cascaded_def two_resources_eval)

section \<open>Exit of the process before readiness\<close>

lemma reachable_settings_rejected: "reachable settings_rejected_worker"
  unfolding settings_rejected_worker_def by (rule reachable.step [OF reachable_example])

lemma on_exit_startup:
  assumes "\<not> spawnDone w"
  shows "emitted (on_exit code signal w) = emitted w @
           [Failure (if code = js_int 42 then TypeError ''wrong settings''
                     else Error (exit_message w code signal))]"
    and "closed (on_exit code signal w)"
    and "died (on_exit code signal w) = died w"
    and "spawnDone (on_exit code signal w)"
proof -
  let ?v = "w\<lparr>child := False, spawnDone := True\<rparr>"
  have e: "emitted (close ?v) = emitted w" "spawnDone (close ?v)"
    by (cases "closed w"; simp add: close_closed close_open)+
  have m: "exit_message ?v code signal = exit_message w code signal"
    by (simp add: exit_message_def)
  from assms have o: "on_exit code signal w =
      emit (Failure (if code = js_int 42 then TypeError ''wrong settings''
                     else Error (exit_message w code signal))) (close ?v)"
    by (simp add: on_exit_def Let_def m)
  show "emitted (on_exit code signal w) = emitted w @
           [Failure (if code = js_int 42 then TypeError ''wrong settings''
                     else Error (exit_message w code signal))]"
    by (simp add: o emit_def e)
  show "closed (on_exit code signal w)" by (simp add: o emit_def closed_close)
  show "died (on_exit code signal w) = died w" by (simp add: o emit_def died_close)
  show "spawnDone (on_exit code signal w)" by (simp add: o emit_def e)
qed

text \<open>
  Claim C1. When the \<^verbatim>\<open>'exit'\<close> handler runs on a reachable Worker while \<^verbatim>\<open>spawnDone\<close> is
  false, it emits \<^verbatim>\<open>'@failure'\<close> once: with \<^verbatim>\<open>TypeError('wrong settings')\<close> if the exit code
  is 42, and otherwise with an \<^verbatim>\<open>Error\<close> whose message is
  \<^verbatim>\<open>[pid:<pid>, code:<code>, signal:<signal>]\<close>. In both cases the Worker ends closed and
  not died. While the handler is registered on the process object, an \<^verbatim>\<open>'exit'\<close> event is
  handled by it.
\<close>

theorem exit_before_readiness:
  assumes "reachable w" and "\<not> spawnDone w"
  shows "(code = js_int 42 \<longrightarrow>
            emitted (on_exit code signal w) =
              emitted w @ [Failure (TypeError ''wrong settings'')]) \<and>
         (code \<noteq> js_int 42 \<longrightarrow>
            emitted (on_exit code signal w) =
              emitted w @ [Failure (Error (''[pid:'' @ template (pid w) @ '', code:'' @
                 template code @ '', signal:'' @ template signal @ '']''))]) \<and>
         closed (on_exit code signal w) \<and> \<not> died (on_exit code signal w) \<and>
         (exit_listener w \<longrightarrow> apply_event (ChildExit code signal) w = on_exit code signal w)"
proof -
  from assms have "\<not> died w"
    using reachable_inv [of w] by (auto simp: worker_inv_def)
  with on_exit_startup [OF assms(2), of code signal] show ?thesis
    by (auto simp: exit_message_def)
qed

text \<open>A freshly constructed Worker whose process exits with 42, with 1, or by a signal.\<close>

theorem exit_before_readiness_witness:
  "emitted (on_exit (js_int 42) JSNull example_worker) =
     [Failure (TypeError ''wrong settings'')] \<and>
   emitted (on_exit (js_int 1) (JSString ''SIGKILL'') example_worker) =
     [Failure (Error ''[pid:4321, code:1, signal:SIGKILL]'')] \<and>
   emitted (on_exit JSNull (JSString ''SIGSEGV'') example_worker) =
     [Failure (Error ''[pid:4321, code:null, signal:SIGSEGV]'')] \<and>
   closed (on_exit (js_int 42) JSNull example_worker) \<and>
   \<not> died (on_exit (js_int 42) JSNull example_worker) \<and>
   apply_event (ChildExit (js_int 42) JSNull) example_worker =
     on_exit (js_int 42) JSNull example_worker"
proof -
  have s: "\<not> spawnDone example_worker" "emitted example_worker = []"
    "pid example_worker = js_int 4321" "exit_listener example_worker"
    by (simp_all add: example_defs)
  have t: "string_of_int (int_of_safe (safe_of_int 4321)) = ''4321''"
    "string_of_int (int_of_safe (safe_of_int 1)) = ''1''"
    "safe_of_int 1 \<noteq> safe_of_int 42"
    by (simp_all add: int_of_safe_of_int safe_of_int_eq_iff string_of_int_def
        string_of_nat.simps digit_char_def)
  from exit_before_readiness [OF reachable_example s(1), of "js_int 42" JSNull]
    exit_before_readiness [OF reachable_example s(1), of "js_int 1"
      "JSString ''SIGKILL''"]
    exit_before_readiness [OF reachable_example s(1), of JSNull "JSString ''SIGSEGV''"]
  show ?thesis by (simp add: s t)
qed

section \<open>A closed Worker stays as it is\<close>

lemma emitted_close: "emitted (close w) = emitted w"
  by (cases "closed w") (simp_all add: close_closed close_open)

lemma emitted_request: "emitted (snd (request m b k w)) = emitted w"
  by (simp add: request_def split: prod.splits)

lemma emitted_resume: "emitted (resume k w) = emitted w"
  by (cases k) (simp_all add: Let_def observer_safeEmit_def)

lemma died_mono: "died w \<Longrightarrow> died (apply_event e w)"
  by (cases e)
     (simp_all add: on_notification_def emit_def on_exit_def on_error_def Let_def
        died_close workerDied_def observer_safeEmit_def close_resources_eq
        set_appData_def dump_def getResourceUsage_def
        updateSettings_def createWebRtcServer_def createRouter_def died_request
        on_response_def on_error_response_def on_continue_def died_resume on_webRtcServer_close_def
        on_router_close_def split: prod.splits option.splits sum.splits list.splits)

lemma Died_emitted_step:
  "Died err \<in> set (emitted (apply_event e w)) \<Longrightarrow>
     Died err \<in> set (emitted w) \<or> died (apply_event e w)"
  by (cases e)
     (auto simp: on_notification_def emit_def on_exit_def on_error_def Let_def
        emitted_close workerDied_def observer_safeEmit_def close_resources_eq
        set_appData_def dump_def getResourceUsage_def
        updateSettings_def createWebRtcServer_def createRouter_def emitted_request
        on_response_def on_error_response_def on_continue_def emitted_resume on_webRtcServer_close_def
        on_router_close_def split: prod.splits option.splits sum.splits list.splits if_splits)

lemma Died_emitted_died: "reachable w \<Longrightarrow> Died err \<in> set (emitted w) \<Longrightarrow> died w"
proof (induction rule: reachable.induct)
  case (constructed env s p)
  then show ?case by (simp add: constructor_def)
next
  case (step w e)
  then show ?case using Died_emitted_step [of err e w] died_mono [of w e] by blast
qed

lemma request_closed:
  "ch_closed (channel w) \<Longrightarrow>
     request m b k w = (Inl (InvalidStateError ''Channel closed''), w)"
  by (simp add: request_def channel_request_def)

lemma resource_calls_resume: "resource_calls (resume k w) = resource_calls w"
  by (cases k) (simp_all add: Let_def observer_safeEmit_def)

lemma count_ObsClose_resume:
  "count_list (observed (resume k w)) ObsClose = count_list (observed w) ObsClose"
  by (cases k) (simp_all add: Let_def observer_safeEmit_def)

lemma closed_process_events:
  assumes "worker_inv w" and "closed w"
  shows "apply_event (ChildExit code signal) w = w"
    and "apply_event (ChildError err) w = w"
proof -
  from assms have f: "\<not> child w"
    "exit_listener w \<longrightarrow> spawnDone w"
    "ConstructorHandler \<in> set (error_listeners w) \<longrightarrow> spawnDone w"
    by (auto simp: worker_inv_def)
  have c: "w\<lparr>child := False\<rparr> = w" using f(1) by (rule child_False_same)
  show "apply_event (ChildExit code signal) w = w"
    using f(2) assms(2) by (simp add: on_exit_def Let_def c workerDied_closed)
  show "apply_event (ChildError err) w = w"
    using f(3) assms(2) by (simp add: on_error_def Let_def c workerDied_closed)
qed

lemma closed_step:
  assumes "worker_inv w" and "closed w"
  shows "died (apply_event e w) = died w \<and>
         resource_calls (apply_event e w) = resource_calls w \<and>
         count_list (observed (apply_event e w)) ObsClose = count_list (observed w) ObsClose"
proof (cases e)
  case (ChildExit code signal)
  then show ?thesis using closed_process_events(1) [OF assms] by simp
next
  case (ChildError err)
  then show ?thesis using closed_process_events(2) [OF assms] by simp
next
  case Continue
  then show ?thesis
    by (cases "resolved w")
       (simp_all add: on_continue_def died_resume resource_calls_resume count_ObsClose_resume)
qed (use assms(2) in \<open>simp_all add: on_notification_def emit_def close_closed set_appData_def
      dump_def getResourceUsage_def updateSettings_def createWebRtcServer_def createRouter_def
      request_def on_response_def on_error_response_def channel_take_def
      on_webRtcServer_close_def on_router_close_def
      split: prod.splits option.splits sum.splits\<close>)

lemma closed_run:
  "reachable w \<Longrightarrow> closed w \<Longrightarrow>
     closed (run evs w) \<and> died (run evs w) = died w \<and>
     resource_calls (run evs w) = resource_calls w \<and>
     count_list (observed (run evs w)) ObsClose = count_list (observed w) ObsClose"
proof (induction evs arbitrary: w)
  case Nil
  then show ?case by (simp add: run_def)
next
  case (Cons e evs)
  have st: "reachable (apply_event e w)" "closed (apply_event e w)"
    using Cons.prems by (simp_all add: reachable.step closed_mono)
  have r: "run (e # evs) w = run evs (apply_event e w)" by (simp add: run_def)
  from closed_step [OF reachable_inv [OF Cons.prems(1)] Cons.prems(2), of e] Cons.IH [OF st]
  show ?case by (simp add: r)
qed

text \<open>
  Claim C9. On a reachable Worker that is closed and has not died, an \<^verbatim>\<open>'exit'\<close> or
  \<^verbatim>\<open>'error'\<close> event of the process changes nothing, and \<open>workerDied\<close> returns the state
  unchanged. Whatever happens afterwards (process events, notifications, calls,
  responses, creations going on after their \<^verbatim>\<open>await\<close>), the Worker stays closed and not
  died, no \<^verbatim>\<open>'died'\<close> event is ever among the events it has emitted, its observer gets no
  further \<^verbatim>\<open>'close'\<close> event, and no further \<^verbatim>\<open>workerClosed()\<close> call is made.
\<close>

theorem closed_worker_ignores_process_events:
  assumes "reachable w" and "closed w" and "\<not> died w"
  shows "apply_event (ChildExit code signal) w = w \<and>
         apply_event (ChildError err) w = w \<and>
         workerDied err w = w \<and>
         closed (run evs w) \<and> \<not> died (run evs w) \<and>
         Died err \<notin> set (emitted (run evs w)) \<and>
         count_list (observed (run evs w)) ObsClose = count_list (observed w) ObsClose \<and>
         resource_calls (run evs w) = resource_calls w"
proof -
  have inv: "worker_inv w" using assms(1) by (rule reachable_inv)
  have r: "closed (run evs w)" "died (run evs w) = died w"
    "resource_calls (run evs w) = resource_calls w"
    "count_list (observed (run evs w)) ObsClose = count_list (observed w) ObsClose"
    using closed_run [OF assms(1,2), of evs] by simp_all
  have "reachable (run evs w)" using assms(1) by (rule reachable_run)
  then have "Died err \<notin> set (emitted (run evs w))"
    using Died_emitted_died [of "run evs w" err] r(2) assms(3) by blast
  then show ?thesis
    using assms(2,3) r closed_process_events [OF inv assms(2)]
    by (simp add: workerDied_closed)
qed

lemma closed_examples:
  "closed closed_worker" "\<not> died closed_worker"
  "closed settings_rejected_worker" "\<not> died settings_rejected_worker"
  "exit_listener settings_rejected_worker" "\<not> exit_listener closed_worker"
  by (simp_all add: closed_worker_def settings_rejected_worker_def example_defs
      on_notification_def emit_def on_exit_def Let_def close_open)

text \<open>
  A Worker closed by \<open>close\<close> (its handlers are gone) and one closed by a rejected startup
  (its handlers are still registered); and the Worker that was closed between two
  creations going on, followed further.
\<close>

theorem closed_worker_ignores_process_events_witness:
  "apply_event (ChildExit JSNull (JSString ''SIGTERM'')) closed_worker = closed_worker \<and>
   apply_event (ChildError (Error ''EPIPE'')) settings_rejected_worker =
     settings_rejected_worker \<and>
   exit_listener settings_rejected_worker \<and>
   \<not> died (run [ChildExit (js_int 0) JSNull, Notify WORKER_RUNNING, ChildError (Error ''EPIPE'')]
             settings_rejected_worker) \<and>
   Died (Error ''EPIPE'') \<notin>
     set (emitted (run [ChildExit (js_int 0) JSNull, Notify WORKER_RUNNING,
                        ChildError (Error ''EPIPE'')] settings_rejected_worker)) \<and>
   count_list (observed (run [Continue, ChildExit (js_int 0) JSNull, Call_close]
     late_resource_worker)) ObsClose = 1"
proof -
  have l: "closed late_resource_worker" "\<not> died late_resource_worker"
    "count_list (observed late_resource_worker) ObsClose = 1"
    by (simp_all add: late_resource_worker_def run_def example_defs on_notification_def emit_def
      createRouter_def createWebRtcServer_def request_def channel_request_def Let_def
      on_response_def on_continue_def channel_take_def set_add_def observer_safeEmit_def
      close_open channel_close_def)
  from closed_worker_ignores_process_events [OF reachable_closed_worker closed_examples(1,2),
      of JSNull "JSString ''SIGTERM''" "Error ''EPIPE''" "[]"]
    closed_worker_ignores_process_events [OF reachable_settings_rejected closed_examples(3,4),
      of "js_int 0" JSNull "Error ''EPIPE''"
         "[ChildExit (js_int 0) JSNull, Notify WORKER_RUNNING, ChildError (Error ''EPIPE'')]"]
    closed_worker_ignores_process_events [OF reachable_late_resource l(1,2),
      of "js_int 0" JSNull "Error ''EPIPE''"
         "[Continue, ChildExit (js_int 0) JSNull, Call_close]"]
  show ?thesis by (simp add: closed_examples l)
qed

section \<open>Requests on a closed Worker\<close>

text \<open>
  Claim C5. On a reachable Worker that is closed (\<open>close\<close> always leaves one), each of
  \<open>dump\<close>, \<open>getResourceUsage\<close>, \<open>updateSettings\<close>, \<open>createWebRtcServer\<close> and \<open>createRouter\<close>
  fails before it waits on anything and leaves the whole state as it was: in particular
  nothing is added to the requests sent to the process.
\<close>

theorem requests_after_close_fail:
  assumes "reachable w" and "closed w"
  shows "dump w = (Inl (InvalidStateError ''Channel closed''), w) \<and>
         getResourceUsage w = (Inl (InvalidStateError ''Channel closed''), w) \<and>
         updateSettings level tags w = (Inl (InvalidStateError ''Channel closed''), w) \<and>
         isl (fst (createWebRtcServer listenInfos app uuid w)) \<and>
         snd (createWebRtcServer listenInfos app uuid w) = w \<and>
         isl (fst (createRouter gen mediaCodecs app uuid w)) \<and>
         snd (createRouter gen mediaCodecs app uuid w) = w \<and>
         closed (close w) \<and> reachable (close w)"
proof -
  from assms have c: "ch_closed (channel w)"
    using reachable_inv [of w] by (auto simp: worker_inv_def)
  have "reachable (apply_event Call_close w)" using assms(1) by (rule reachable.step)
  then have "reachable (close w)" by simp
  then show ?thesis
    by (simp add: dump_def getResourceUsage_def updateSettings_def createWebRtcServer_def
        createRouter_def request_closed [OF c] closed_close split: sum.splits)
qed

text \<open>Requests on a Worker that was closed while running.\<close>

theorem requests_after_close_fail_witness:
  "dump closed_worker = (Inl (InvalidStateError ''Channel closed''), closed_worker) \<and>
   ch_sent (channel (snd (getResourceUsage closed_worker))) = [] \<and>
   isl (fst (createRouter (\<lambda>codecs. Inr codecs) JSUndefined JSUndefined ''uuid-1''
     closed_worker)) \<and>
   closed_worker = close running_worker"
proof -
  have "ch_sent (channel closed_worker) = []" "closed_worker = close running_worker"
    by (simp_all add: closed_worker_def example_defs on_notification_def emit_def close_open
        channel_close_def)
  with requests_after_close_fail [OF reachable_closed_worker closed_examples(1),
      of _ _ _ _ _ "\<lambda>codecs. Inr codecs" JSUndefined]
  show ?thesis by simp
qed

section \<open>Application data\<close>

text \<open>
  Claim C7. A call of \<open>createWebRtcServer\<close> or \<open>createRouter\<close> whose \<^verbatim>\<open>appData\<close> is truthy and
  not of type \<^verbatim>\<open>'object'\<close> throws \<^verbatim>\<open>TypeError('if given, appData must be an object')\<close> and
  leaves the Worker unchanged, whatever its state: no request is sent, and the registries
  and the observer are as before.
\<close>

theorem appData_rejected_locally:
  assumes "truthy app" and "typeof app \<noteq> ''object''"
  shows "createWebRtcServer listenInfos app uuid w =
           (Inl (TypeError ''if given, appData must be an object''), w) \<and>
         createRouter gen mediaCodecs app uuid w =
           (Inl (TypeError ''if given, appData must be an object''), w) \<and>
         apply_event (Call_createWebRtcServer listenInfos app uuid) w = w \<and>
         apply_event (Call_createRouter gen mediaCodecs app uuid) w = w"
  using assms by (simp add: createWebRtcServer_def createRouter_def)

text \<open>A string, a number and a boolean as \<^verbatim>\<open>appData\<close>.\<close>

theorem appData_rejected_locally_witness:
  "createRouter (\<lambda>codecs. Inr codecs) JSUndefined (JSString ''room-1'') ''uuid-1''
     running_worker =
     (Inl (TypeError ''if given, appData must be an object''), running_worker) \<and>
   createWebRtcServer [] (js_int 7) ''uuid-2'' running_worker =
     (Inl (TypeError ''if given, appData must be an object''), running_worker) \<and>
   createWebRtcServer [] (JSBoolean True) ''uuid-2'' closed_worker =
     (Inl (TypeError ''if given, appData must be an object''), closed_worker)"
  using appData_rejected_locally [of "JSString ''room-1''" "[]" "''uuid-1''" running_worker
      "\<lambda>codecs. Inr codecs" JSUndefined]
    appData_rejected_locally [of "js_int 7" "[]" "''uuid-2''" running_worker]
    appData_rejected_locally [of "JSBoolean True" "[]" "''uuid-2''" closed_worker]
  by (simp add: int_of_safe_of_int)

text \<open>
  Claim C10. When the \<^verbatim>\<open>appData\<close> of the settings is falsy (omitted, \<^verbatim>\<open>undefined\<close> or any other
  falsy value), the constructed Worker's \<^verbatim>\<open>appData\<close> is the empty object, not
  \<^verbatim>\<open>undefined\<close>. The setter replaces it on every Worker, whatever its \<open>closed\<close> and \<open>died\<close>
  flags, and changes nothing else.
\<close>

theorem appData_default_and_setter:
  assumes "\<not> truthy (ws_appData s)"
  shows "appData (constructor env s p) = JSObject [] \<and>
         appData (constructor env s p) \<noteq> JSUndefined \<and>
         appData (set_appData v w) = v \<and>
         set_appData v w = w\<lparr>appData := v\<rparr> \<and>
         closed (set_appData v w) = closed w \<and> died (set_appData v w) = died w"
  using assms by (simp add: constructor_def set_appData_def)

text \<open>Omitted and empty-string \<^verbatim>\<open>appData\<close>; the setter on a Worker that died.\<close>

theorem appData_default_and_setter_witness:
  "appData example_worker = JSObject [] \<and>
   appData (constructor example_env (no_settings\<lparr>ws_appData := JSString ''''\<rparr>) JSUndefined)
     = JSObject [] \<and>
   appData (set_appData (JSObject [(''tag'', js_int 1)]) died_worker) =
     JSObject [(''tag'', js_int 1)] \<and>
   died died_worker"
proof -
  have 1: "\<not> truthy (ws_appData no_settings)"
    "\<not> truthy (ws_appData (no_settings\<lparr>ws_appData := JSString ''''\<rparr>))"
    by (simp_all add: no_settings_def)
  have 2: "died died_worker"
    by (simp add: example_defs on_notification_def emit_def on_exit_def Let_def workerDied_open)
  from appData_default_and_setter [OF 1(1), of example_env "js_int 4321"
      "JSObject [(''tag'', js_int 1)]" died_worker]
    appData_default_and_setter [OF 1(2), of example_env JSUndefined] 2
  show ?thesis by (simp add: example_worker_def)
qed

section \<open>Resource usage\<close>

text \<open>
  Claim C8. On a reachable Worker that is not closed, \<open>getResourceUsage\<close> sends one
  \<^verbatim>\<open>WORKER_GET_RESOURCE_USAGE\<close> request and waits on it. The object it returns for a decoded
  response \<open>ru\<close> has exactly the sixteen properties that the type \<^verbatim>\<open>WorkerResourceUsage\<close>
  declares, each once, and the value of each is \<open>Number\<close> applied to the field of \<open>ru\<close>
  that corresponds to it.
\<close>

theorem getResourceUsage_sixteen_fields:
  assumes "reachable w" and "\<not> closed w"
  shows "fst (getResourceUsage w) = Inr (ch_nextId (channel w)) \<and>
         ch_sent (channel (snd (getResourceUsage w))) =
           ch_sent (channel w) @ [(ch_nextId (channel w), WORKER_GET_RESOURCE_USAGE, NoBody)] \<and>
         map_of (ch_pending (channel (snd (getResourceUsage w)))) (ch_nextId (channel w)) =
           Some AwaitResourceUsage \<and>
         map fst (getResourceUsage_result Number ru) = WorkerResourceUsage_fields \<and>
         distinct (map fst (getResourceUsage_result Number ru)) \<and>
         length (getResourceUsage_result Number ru) = 16 \<and>
         map snd (getResourceUsage_result Number ru) =
           map Number [ruUtime ru, ruStime ru, ruMaxrss ru, ruIxrss ru, ruIdrss ru, ruIsrss ru,
             ruMinflt ru, ruMajflt ru, ruNswap ru, ruInblock ru, ruOublock ru, ruMsgsnd ru,
             ruMsgrcv ru, ruNsignals ru, ruNvcsw ru, ruNivcsw ru]"
proof -
  from assms have o: "\<not> ch_closed (channel w)"
    using reachable_inv [of w] by (auto simp: worker_inv_def)
  have r: "getResourceUsage w =
      (Inr (ch_nextId (channel w)),
       w\<lparr>channel := (channel w)\<lparr>ch_nextId := ch_nextId (channel w) + 1,
              ch_pending := ch_pending (channel w) @ [(ch_nextId (channel w), AwaitResourceUsage)],
              ch_sent := ch_sent (channel w) @
                [(ch_nextId (channel w), WORKER_GET_RESOURCE_USAGE, NoBody)]\<rparr>\<rparr>)"
    using o by (simp add: getResourceUsage_def request_def channel_request_def)
  have "\<forall>p \<in> set (ch_pending (channel w)). fst p < ch_nextId (channel w)"
    using reachable_inv [OF assms(1)] by (simp add: worker_inv_def)
  then have p: "map_of (ch_pending (channel w)) (ch_nextId (channel w)) = None"
    by (force simp: map_of_eq_None_iff)
  have f: "map fst (getResourceUsage_result Number ru) = WorkerResourceUsage_fields"
    by (simp add: getResourceUsage_result_def WorkerResourceUsage_fields_def)
  have d: "distinct WorkerResourceUsage_fields"
    by (simp add: WorkerResourceUsage_fields_def)
  have s: "map snd (getResourceUsage_result Number ru) =
           map Number [ruUtime ru, ruStime ru, ruMaxrss ru, ruIxrss ru, ruIdrss ru, ruIsrss ru,
             ruMinflt ru, ruMajflt ru, ruNswap ru, ruInblock ru, ruOublock ru, ruMsgsnd ru,
             ruMsgrcv ru, ruNsignals ru, ruNvcsw ru, ruNivcsw ru]"
    by (simp add: getResourceUsage_result_def)
  have l: "length (getResourceUsage_result Number ru) = 16"
    by (simp add: getResourceUsage_result_def)
  have m: "map_of (ch_pending (channel w) @ [(ch_nextId (channel w), AwaitResourceUsage)])
      (ch_nextId (channel w)) = Some AwaitResourceUsage"
    using p by (simp add: map_add_def)
  show ?thesis using f d s l m by (simp add: r)
qed


text \<open>The first request of a running Worker, and a response with the values 1 to 16.\<close>

theorem getResourceUsage_sixteen_fields_witness:
  "fst (getResourceUsage running_worker) = Inr 1 \<and>
   ch_sent (channel (snd (getResourceUsage running_worker))) =
     [(1, WORKER_GET_RESOURCE_USAGE, NoBody)] \<and>
   getResourceUsage_result Integral example_usage =
     [(''ru_utime'', Integral (safe_of_int 1)), (''ru_stime'', Integral (safe_of_int 2)), (''ru_maxrss'', Integral (safe_of_int 3)),
      (''ru_ixrss'', Integral (safe_of_int 4)), (''ru_idrss'', Integral (safe_of_int 5)), (''ru_isrss'', Integral (safe_of_int 6)),
      (''ru_minflt'', Integral (safe_of_int 7)), (''ru_majflt'', Integral (safe_of_int 8)), (''ru_nswap'', Integral (safe_of_int 9)),
      (''ru_inblock'', Integral (safe_of_int 10)), (''ru_oublock'', Integral (safe_of_int 11)),
      (''ru_msgsnd'', Integral (safe_of_int 12)), (''ru_msgrcv'', Integral (safe_of_int 13)),
      (''ru_nsignals'', Integral (safe_of_int 14)), (''ru_nvcsw'', Integral (safe_of_int 15)),
      (''ru_nivcsw'', Integral (safe_of_int 16))]"
proof -
  have e: "\<not> closed running_worker" "ch_nextId (channel running_worker) = 1"
    "ch_sent (channel running_worker) = []"
    by (simp_all add: example_defs on_notification_def emit_def)
  have z: "zip (map fst (getResourceUsage_result Integral example_usage))
      (map snd (getResourceUsage_result Integral example_usage)) =
      getResourceUsage_result Integral example_usage"
    by (rule zip_map_fst_snd)
  from getResourceUsage_sixteen_fields [OF reachable_running e(1), of Integral
      example_usage] z
  show ?thesis
    by (simp add: e WorkerResourceUsage_fields_def example_usage_def)
qed

section \<open>From settings to command-line arguments\<close>

lemma push_string_setting_eq:
  "push_string_setting key v args = args @ string_setting_arg key v"
  by (cases v) (simp_all add: push_string_setting_def string_setting_arg_def)

lemma push_number_setting_eq:
  "push_number_setting key v args = args @ number_setting_arg key v"
proof (cases v)
  case (JSNumber n)
  then show ?thesis
    by (cases n) (simp_all add: push_number_setting_def number_setting_arg_def)
qed (simp_all add: push_number_setting_def number_setting_arg_def)

lemma foldl_push_logTag:
  "foldl (\<lambda>args logTag. push_string_setting ''logTag'' logTag args) args tags =
     args @ concat (map (string_setting_arg ''logTag'') tags)"
  by (induction tags arbitrary: args) (simp_all add: push_string_setting_eq)

lemma push_logTags_eq: "push_logTags v args = args @ logTags_args v"
  by (cases v) (simp_all add: push_logTags_def logTags_args_def foldl_push_logTag)

lemma spawnArgs_of_eq: "spawnArgs_of env s = snd (valgrind_command env) @ settings_args s"
  by (simp add: spawnArgs_of_def spawnCommand_def Let_def settings_args_def
      push_string_setting_eq push_number_setting_eq push_logTags_eq split: prod.splits)

lemma length_string_setting_arg:
  "length (string_setting_arg key v) =
     (if typeof v = ''string'' \<and> v \<noteq> JSString [] then 1 else 0)"
  by (cases v) (simp_all add: string_setting_arg_def)

lemma length_number_setting_arg:
  "length (number_setting_arg key v) =
     (if typeof v = ''number'' \<and> v \<noteq> JSNumber NaN then 1 else 0)"
  by (cases v) (simp_all add: number_setting_arg_def)

lemma length_logTag_args:
  "length (concat (map (string_setting_arg ''logTag'') tags)) =
     length (filter (\<lambda>t. typeof t = ''string'' \<and> t \<noteq> JSString []) tags)"
  by (induction tags) (simp_all add: length_string_setting_arg)

lemma length_logTags_args:
  "length (logTags_args v) =
     length (filter (\<lambda>t. typeof t = ''string'' \<and> t \<noteq> JSString []) (elements v))"
  by (cases v) (simp_all add: logTags_args_def length_logTag_args)

lemma no_port_arg_string:
  "filter is_port_arg (string_setting_arg ''logLevel'' v) = []"
  "filter is_port_arg (string_setting_arg ''logTag'' v) = []"
  "filter is_port_arg (string_setting_arg ''dtlsCertificateFile'' v) = []"
  "filter is_port_arg (string_setting_arg ''dtlsPrivateKeyFile'' v) = []"
  "filter is_port_arg (string_setting_arg ''libwebrtcFieldTrials'' v) = []"
  by (cases v; simp add: string_setting_arg_def is_port_arg_def)+

lemma no_port_arg_logTags: "filter is_port_arg (logTags_args v) = []"
proof (cases v)
  case (JSArray tags)
  have "filter is_port_arg (concat (map (string_setting_arg ''logTag'') tags)) = []"
    by (induction tags) (simp_all add: no_port_arg_string)
  with JSArray show ?thesis by (simp add: logTags_args_def)
qed (simp_all add: logTags_args_def)

lemma decimal_10000:
  "string_of_int (int_of_safe (safe_of_int 10000)) = ''10000''"
  "string_of_int (int_of_safe (safe_of_int 10010)) = ''10010''"
  by (simp_all add: int_of_safe_of_int string_of_int_def string_of_nat.simps digit_char_def)

lemma port_args_scenario:
  assumes "rtcMinPort s = js_int 10000"
    and "rtcMaxPort s = js_int 10010"
  shows "filter is_port_arg (settings_args s) = [''--rtcMinPort=10000'', ''--rtcMaxPort=10010'']"
  by (simp add: settings_args_def no_port_arg_string no_port_arg_logTags assms
      number_setting_arg_def decimal_10000 is_port_arg_def)

text \<open>
  The claim C6 as it is worded fails: a \<^verbatim>\<open>logTags\<close> array with two tags yields two
  arguments, named \<^verbatim>\<open>--logTag\<close>; an empty string and \<^verbatim>\<open>NaN\<close> have the type their setting
  asks for and yield no argument; and the options of the valgrind wrapper, which precede
  the arguments of the settings, can hold a port argument of their own.
\<close>

theorem settings_to_arguments_counterexample:
  "spawnArgs_of example_env (no_settings\<lparr>logTags := JSArray [JSString ''ice'', JSString ''dtls'']\<rparr>)
     = [''--logTag=ice'', ''--logTag=dtls''] \<and>
   length (spawnArgs_of example_env
     (no_settings\<lparr>logTags := JSArray [JSString ''ice'', JSString ''dtls'']\<rparr>)) \<noteq> 1 \<and>
   typeof (JSString '''') = ''string'' \<and>
   spawnArgs_of example_env (no_settings\<lparr>dtlsCertificateFile := JSString ''''\<rparr>) = [] \<and>
   typeof (JSNumber NaN) = ''number'' \<and>
   spawnArgs_of example_env (no_settings\<lparr>rtcMinPort := JSNumber NaN\<rparr>) = [] \<and>
   filter is_port_arg (spawnArgs_of valgrind_env port_settings) =
     [''--rtcMinPort=1'', ''--rtcMinPort=10000'', ''--rtcMaxPort=10010'']"
  by (simp add: spawnArgs_of_def spawnCommand_def example_env_def no_settings_def
      valgrind_command_def push_string_setting_def push_number_setting_def push_logTags_def
      Let_def valgrind_env_def port_settings_def is_space_def is_port_arg_def workerBin_def
      decimal_10000)

text \<open>
  Claim C6, amended. The arguments are those of the valgrind wrapper, if it is enabled,
  followed by the arguments of the settings in a fixed order. Each of \<^verbatim>\<open>logLevel\<close>,
  \<^verbatim>\<open>dtlsCertificateFile\<close>, \<^verbatim>\<open>dtlsPrivateKeyFile\<close> and \<^verbatim>\<open>libwebrtcFieldTrials\<close> yields exactly one
  \<^verbatim>\<open>--key=value\<close> argument when it is a non-empty string and none otherwise; each of
  \<^verbatim>\<open>rtcMinPort\<close> and \<^verbatim>\<open>rtcMaxPort\<close> yields exactly one when it is a number other than
  \<^verbatim>\<open>NaN\<close> and none otherwise; \<^verbatim>\<open>logTags\<close> yields one \<^verbatim>\<open>--logTag=value\<close> argument for each of
  its elements that is a non-empty string when it is an array, and none otherwise. With
  \<^verbatim>\<open>rtcMinPort=10000\<close> and \<^verbatim>\<open>rtcMaxPort=10010\<close> the port arguments among those of the
  settings are exactly \<^verbatim>\<open>--rtcMinPort=10000\<close> and \<^verbatim>\<open>--rtcMaxPort=10010\<close>.
\<close>

theorem settings_to_arguments:
  "spawnArgs_of env s = snd (valgrind_command env) @ settings_args s \<and>
   (MEDIASOUP_USE_VALGRIND env \<noteq> Some ''true'' \<longrightarrow> spawnArgs_of env s = settings_args s) \<and>
   length (string_setting_arg key v) =
     (if typeof v = ''string'' \<and> v \<noteq> JSString [] then 1 else 0) \<and>
   length (number_setting_arg key v) =
     (if typeof v = ''number'' \<and> v \<noteq> JSNumber NaN then 1 else 0) \<and>
   length (logTags_args v) =
     length (filter (\<lambda>t. typeof t = ''string'' \<and> t \<noteq> JSString []) (elements v)) \<and>
   (rtcMinPort s = js_int 10000 \<and> rtcMaxPort s = js_int 10010 \<longrightarrow>
      filter is_port_arg (settings_args s) = [''--rtcMinPort=10000'', ''--rtcMaxPort=10010''])"
  by (simp add: spawnArgs_of_eq length_string_setting_arg length_number_setting_arg
      length_logTags_args port_args_scenario valgrind_command_def)

text \<open>The settings of the scenario, and the command the constructor spawns for them.\<close>

theorem settings_to_arguments_witness:
  "spawnArgs_of example_env port_settings = [''--rtcMinPort=10000'', ''--rtcMaxPort=10010''] \<and>
   filter is_port_arg (spawnArgs_of example_env port_settings) =
     [''--rtcMinPort=10000'', ''--rtcMaxPort=10010''] \<and>
   spawned (constructor example_env port_settings (js_int 4321)) =
     (''/worker/out/Release/mediasoup-worker'',
      [''--rtcMinPort=10000'', ''--rtcMaxPort=10010''])"
proof -
  have e: "MEDIASOUP_USE_VALGRIND example_env \<noteq> Some ''true''"
    "rtcMinPort port_settings = js_int 10000"
    "rtcMaxPort port_settings = js_int 10010"
    by (simp_all add: example_env_def port_settings_def no_settings_def)
  have a: "settings_args port_settings = [''--rtcMinPort=10000'', ''--rtcMaxPort=10010'']"
    by (simp add: settings_args_def port_settings_def no_settings_def string_setting_arg_def
        logTags_args_def number_setting_arg_def decimal_10000)
  have b: "fst (spawnCommand example_env port_settings) = ''/worker/out/Release/mediasoup-worker''"
    by (simp add: spawnCommand_def valgrind_command_def example_env_def workerBin_def Let_def
        split: prod.splits)
  have c: "spawnCommand example_env port_settings =
      (fst (spawnCommand example_env port_settings), spawnArgs_of example_env port_settings)"
    by (simp add: spawnArgs_of_def)
  have "spawnArgs_of example_env port_settings = settings_args port_settings"
    using settings_to_arguments [of example_env port_settings "''logLevel''" JSUndefined] e(1)
    by blast
  then have "spawnArgs_of example_env port_settings =
      [''--rtcMinPort=10000'', ''--rtcMaxPort=10010'']"
    by (simp only: a)
  then show ?thesis using c b by (simp add: constructor_def is_port_arg_def)
qed

end
